theory Spec2Isabelle
  imports Main
begin

section \<open>Data model\<close>

text \<open>
  The tables of \<^verbatim>\<open>complete-database-setup.sql\<close>, with the columns the ledger code reads
  or writes. UUIDs are natural numbers, timestamps are integers (a later instant is a larger
  number), an \<^verbatim>\<open>INTEGER\<close> column and a JavaScript number are integers; the SQL functions
  raise where a value they assign does not fit an \<^verbatim>\<open>INTEGER\<close>.
  Provenance columns (\<^verbatim>\<open>amount_paid\<close>, \<^verbatim>\<open>currency\<close>, \<^verbatim>\<open>purchase_type\<close>, the
  Stripe payment references of a purchase) and \<^verbatim>\<open>updated_at\<close> are left out: no query filters on them.
  The \<^verbatim>\<open>users\<close> table (tier and Stripe customer) is left out as well: the ledger never
  reads it.
  \<^verbatim>\<open>expires_at\<close> is optional because the request handlers test it for NULL.
\<close>

datatype payment_status = Pending | Completed | Failed

record purchase =
  pid :: nat
  user_id :: nat
  subscription_id :: "nat option"
  credits :: int
  remaining_credits :: int
  expires_at :: "int option"
  payment_status :: payment_status
  created_at :: int

record subscription =
  sub_id :: nat
  sub_user_id :: nat
  stripe_subscription_id :: string
  sub_status :: string
  current_period_start :: int
  current_period_end :: int
  credits_per_period :: int

record usage_row =
  usage_user_id :: nat
  usage_purchase_id :: "nat option"
  usage_subscription_id :: "nat option"
  credits_used :: int
  api_key_used :: bool

record history_row =
  history_subscription_id :: nat
  history_user_id :: nat
  history_event_type :: string
  stripe_event_id :: string

record db =
  subscriptions :: "subscription list"
  credit_purchases :: "purchase list"
  api_usage :: "usage_row list"
  subscription_history :: "history_row list"

section \<open>Queries on \<^verbatim>\<open>credit_purchases\<close>\<close>

text \<open>\<^verbatim>\<open>expires_at > NOW()\<close> and \<^verbatim>\<open>.gt('expires_at', now)\<close>: a NULL never passes.\<close>

definition expires_gt :: "int \<Rightarrow> purchase \<Rightarrow> bool" where
  "expires_gt now p = (case expires_at p of None \<Rightarrow> False | Some e \<Rightarrow> now < e)"

text \<open>\<^verbatim>\<open>.or(`expires_at.is.null,expires_at.gt.${now}`)\<close>.\<close>

definition expires_null_or_gt :: "int \<Rightarrow> purchase \<Rightarrow> bool" where
  "expires_null_or_gt now p = (case expires_at p of None \<Rightarrow> True | Some e \<Rightarrow> now < e)"

text \<open>
  The WHERE clause shared by \<^verbatim>\<open>get_available_credits\<close> and \<^verbatim>\<open>use_credits\<close>.
\<close>

definition sql_eligible :: "nat \<Rightarrow> int \<Rightarrow> purchase \<Rightarrow> bool" where
  "sql_eligible p_user_id now p =
     (user_id p = p_user_id \<and> expires_gt now p \<and> payment_status p = Completed
      \<and> 0 < remaining_credits p)"

text \<open>
  The filter of the request handlers' credit check and deduction queries:
  \<^verbatim>\<open>.eq('user_id', user.id).gt('remaining_credits', 0).or(expires_at.is.null,expires_at.gt.now)\<close>.
\<close>

definition js_eligible :: "nat \<Rightarrow> int \<Rightarrow> purchase \<Rightarrow> bool" where
  "js_eligible u now p =
     (user_id p = u \<and> 0 < remaining_credits p \<and> expires_null_or_gt now p)"

text \<open>
  The filter of \<^verbatim>\<open>handleGetCredits\<close> and of the handlers' first check and final balance:
  \<^verbatim>\<open>.eq('user_id', userId).gt('expires_at', now).gt('remaining_credits', 0)\<close>.
\<close>

definition js_active :: "nat \<Rightarrow> int \<Rightarrow> purchase \<Rightarrow> bool" where
  "js_active u now p = (user_id p = u \<and> expires_gt now p \<and> 0 < remaining_credits p)"

text \<open>\<^verbatim>\<open>rows.reduce((sum, p) => sum + p.remaining_credits, 0)\<close> and SQL \<^verbatim>\<open>COALESCE(SUM(..), 0)\<close>.\<close>

definition sum_remaining :: "purchase list \<Rightarrow> int" where
  "sum_remaining rows = sum_list (map remaining_credits rows)"

text \<open>
  \<^verbatim>\<open>ORDER BY created_at ASC\<close>. SQL leaves the order of rows with equal \<^verbatim>\<open>created_at\<close>
  open; the model keeps them in table order (a stable sort).
\<close>

definition order_by_created_at :: "purchase list \<Rightarrow> purchase list" where
  "order_by_created_at rows = sort_key created_at rows"

text \<open>
  What PostgreSQL raises inside the SQL functions: 42702 for a column reference that is
  also a PL/pgSQL variable, 22003 for a value that does not fit an \<^verbatim>\<open>INTEGER\<close>.
\<close>

datatype sql_error = Ambiguous_column | Numeric_value_out_of_range

definition int4_max :: int where
  "int4_max = 2147483647"

text \<open>
  \<^verbatim>\<open>get_available_credits\<close>: the sum is assigned to an \<^verbatim>\<open>INTEGER\<close> variable, which raises
  when the sum is too large (the rows summed are positive).
\<close>

definition get_available_credits :: "purchase list \<Rightarrow> int \<Rightarrow> nat \<Rightarrow> sql_error + int" where
  "get_available_credits tbl now p_user_id =
     (let total_credits = sum_remaining (filter (sql_eligible p_user_id now) tbl)
      in if int4_max < total_credits then Inl Numeric_value_out_of_range
         else Inr total_credits)"

section \<open>Updates of \<^verbatim>\<open>credit_purchases\<close>\<close>

text \<open>\<^verbatim>\<open>UPDATE .. SET remaining_credits = v WHERE id = i\<close> (every row with that id).\<close>

definition set_remaining :: "nat \<Rightarrow> int \<Rightarrow> purchase list \<Rightarrow> purchase list" where
  "set_remaining i v tbl =
     map (\<lambda>p. if pid p = i then p\<lparr>remaining_credits := v\<rparr> else p) tbl"

text \<open>\<^verbatim>\<open>UPDATE .. SET remaining_credits = remaining_credits - v WHERE id = i\<close>.\<close>

definition decrement_remaining :: "nat \<Rightarrow> int \<Rightarrow> purchase list \<Rightarrow> purchase list" where
  "decrement_remaining i v tbl =
     map (\<lambda>p. if pid p = i then p\<lparr>remaining_credits := remaining_credits p - v\<rparr> else p) tbl"

text \<open>
  The optimistic-lock update of the single-image handler:
  \<^verbatim>\<open>.update({remaining_credits: v}).eq('id', i).eq('remaining_credits', expected)\<close>.
\<close>

definition set_remaining_if :: "nat \<Rightarrow> int \<Rightarrow> int \<Rightarrow> purchase list \<Rightarrow> purchase list" where
  "set_remaining_if i expected v tbl =
     map (\<lambda>p. if pid p = i \<and> remaining_credits p = expected
              then p\<lparr>remaining_credits := v\<rparr> else p) tbl"

text \<open>\<^verbatim>\<open>.single()\<close>: the row when the query returns exactly one, otherwise an error.\<close>

fun single :: "'a list \<Rightarrow> 'a option" where
  "single [x] = Some x"
| "single _ = None"

text \<open>\<^verbatim>\<open>.limit(1).single()\<close>: the first row, an error when there is none.\<close>

fun limit1_single :: "'a list \<Rightarrow> 'a option" where
  "limit1_single [] = None"
| "limit1_single (x # _) = Some x"

section \<open>\<^verbatim>\<open>use_credits\<close> (complete-database-setup.sql)\<close>

record use_credits_row =
  success :: bool
  message :: string
  purchase_id :: "nat option"
  used_subscription_id :: "nat option"

text \<open>
  The function is declared \<^verbatim>\<open>RETURNS TABLE(success, message, purchase_id, subscription_id)\<close>,
  so these four names are variables of its body. Its first query (the sum, the same as in
  \<^verbatim>\<open>get_available_credits\<close>) names none of them. The query of the
  \<^verbatim>\<open>FOR v_record IN SELECT id AS purchase_id, subscription_id, .. LOOP\<close> selects the
  column \<^verbatim>\<open>subscription_id\<close> unqualified, and the function has no
  \<^verbatim>\<open>#variable_conflict\<close> setting: when the function reaches the loop, PostgreSQL refuses
  the query with 42702 (column reference ambiguous). The body of the loop, with its two
  \<^verbatim>\<open>UPDATE\<close> statements, is therefore never run. The call ends with the error and the
  table is as it was.
\<close>

definition use_credits ::
  "purchase list \<Rightarrow> int \<Rightarrow> nat \<Rightarrow> int \<Rightarrow> bool
     \<Rightarrow> (sql_error + use_credits_row) \<times> purchase list" where
  "use_credits tbl now p_user_id p_credits_to_use p_api_key_used =
     (if p_api_key_used then
        (Inr \<lparr>success = True, message = ''Using own API key'',
              purchase_id = None, used_subscription_id = None\<rparr>, tbl)
      else
        (case get_available_credits tbl now p_user_id of
           Inl raised \<Rightarrow> (Inl raised, tbl)
         | Inr v_total_available \<Rightarrow>
             if v_total_available < p_credits_to_use then
               (Inr \<lparr>success = False, message = ''Insufficient credits'',
                     purchase_id = None, used_subscription_id = None\<rparr>, tbl)
             else (Inl Ambiguous_column, tbl)))"

section \<open>\<^verbatim>\<open>decrement_credit\<close> (sql/decrement_credit.sql)\<close>

text \<open>
  The function is granted to \<^verbatim>\<open>authenticated\<close> and \<^verbatim>\<open>service_role\<close>; no handler calls it.
  It reads the row (none: \<^verbatim>\<open>current_credits\<close> is NULL), raises when the row has fewer
  credits than \<^verbatim>\<open>amount\<close>, and subtracts \<^verbatim>\<open>amount\<close>; there is no test that \<^verbatim>\<open>amount\<close> is
  positive. Whatever is raised, also by a result that does not fit an \<^verbatim>\<open>INTEGER\<close>, is
  caught by \<^verbatim>\<open>WHEN OTHERS\<close> and answered with \<^verbatim>\<open>success: false\<close>, the table as it was.
\<close>

record decrement_result =
  decrement_success :: bool
  decrement_remaining_credits :: "int option"
  amount_deducted :: "int option"

definition decrement_credit ::
  "purchase list \<Rightarrow> nat \<Rightarrow> int \<Rightarrow> decrement_result \<times> purchase list" where
  "decrement_credit tbl purchase_id_arg amount =
     (let refused = \<lparr>decrement_success = False, decrement_remaining_credits = None,
                      amount_deducted = None\<rparr>
      in case find (\<lambda>p. pid p = purchase_id_arg) tbl of
           None \<Rightarrow> (refused, tbl)
         | Some row \<Rightarrow>
             (let current_credits = remaining_credits row
              in if current_credits < amount then (refused, tbl)
                 else if int4_max < current_credits - amount then (refused, tbl)
                 else
                   (\<lparr>decrement_success = True,
                     decrement_remaining_credits = Some (current_credits - amount),
                     amount_deducted = Some amount\<rparr>,
                    decrement_remaining purchase_id_arg amount tbl)))"

section \<open>Request handlers: common parts\<close>

text \<open>
  A handler run is modelled from the point where CORS, authentication, rate limiting and
  input validation have passed. Every call to the store is a \<^emph>\<open>site\<close>; \<open>faults\<close> says
  which calls come back with an error. The calls made are recorded in order, together with
  the OpenAI call. The 8.5 second watchdog of the single-image handler and the text of
  the excerpt columns of \<^verbatim>\<open>api_usage\<close> are not modelled.
\<close>

datatype site =
    First_check | Second_check | Find nat | Update nat | Rpc_use_credits
  | Insert_usage nat | Final_balance
  | Active_purchases | All_purchases | Count_usage | Insert_purchase
  | Select_subscription | Insert_subscription | Update_subscription | Insert_history

datatype event = Store site | Compute

text \<open>
  The OpenAI call: it returns, or it throws (also on the 7 second timeout) an error whose
  \<^verbatim>\<open>status\<close> may be missing.
\<close>

datatype compute = Compute_ok | Compute_throws "nat option"

text \<open>
  A response: the HTTP status, the \<^verbatim>\<open>error\<close> text of the body when the source writes it
  as a literal, and the \<^verbatim>\<open>available_credits\<close> or \<^verbatim>\<open>remaining_credits\<close> of the body.
\<close>

record response =
  status :: nat
  error_text :: "string option"
  credits_field :: "int option"

record outcome =
  resp :: response
  tables :: db
  calls :: "event list"

text \<open>\<^verbatim>\<open>data ? data.reduce((sum, p) => sum + p.remaining_credits, 0) : 0\<close>.\<close>

definition query_sum :: "bool \<Rightarrow> (purchase \<Rightarrow> bool) \<Rightarrow> purchase list \<Rightarrow> int" where
  "query_sum fault flt tbl = (if fault then 0 else sum_remaining (filter flt tbl))"

text \<open>The \<^verbatim>\<open>catch (error)\<close> block of the three analyze handlers.\<close>

definition catch_response :: "nat option \<Rightarrow> response" where
  "catch_response error_status =
     (if error_status = Some 429 then
        \<lparr>status = 429,
         error_text = Some ''OpenAI rate limit exceeded. Please try again later.'',
         credits_field = None\<rparr>
      else if error_status = Some 401 then
        \<lparr>status = 500, error_text = Some ''Service temporarily unavailable'',
         credits_field = None\<rparr>
      else \<lparr>status = 500, error_text = None, credits_field = None\<rparr>)"

text \<open>
  The oldest purchase with credits left:
  \<^verbatim>\<open>.order('created_at', {ascending: true}).limit(1).single()\<close>; \<open>None\<close> stands for
  \<^verbatim>\<open>findError || !creditPurchase\<close>.
\<close>

definition find_oldest :: "bool \<Rightarrow> nat \<Rightarrow> int \<Rightarrow> purchase list \<Rightarrow> purchase option" where
  "find_oldest fault u now tbl =
     (if fault then None
      else limit1_single (order_by_created_at (filter (js_eligible u now) tbl)))"

text \<open>Inserts of the same usage row, one per index; a failed insert is only logged.\<close>

primrec insert_usage_rows ::
  "(site \<Rightarrow> bool) \<Rightarrow> usage_row \<Rightarrow> nat list \<Rightarrow> usage_row list \<Rightarrow> usage_row list" where
  "insert_usage_rows faults row [] tbl = tbl"
| "insert_usage_rows faults row (j # js) tbl =
     insert_usage_rows faults row js (if faults (Insert_usage j) then tbl else tbl @ [row])"

section \<open>Batch handler (api/analyze-batch.js)\<close>

text \<open>
  The \<^verbatim>\<open>while (creditsToDeduct > 0)\<close> loop. \<open>n\<close> is \<^verbatim>\<open>images.length\<close>, \<open>i\<close> counts the
  iterations. The result is the early response, if any, the tables and the calls made.
  \<open>result_indexes\<close> lists the \<^verbatim>\<open>resultIndex\<close> of the inner \<^verbatim>\<open>for\<close> loop, computed as there
  from the value \<^verbatim>\<open>creditsToDeduct\<close> has after the subtraction; \<open>credit_usage_row\<close> is
  the row each of its rounds inserts.
\<close>

definition result_indexes :: "int \<Rightarrow> int \<Rightarrow> int \<Rightarrow> nat list" where
  "result_indexes n creditsToDeduct creditsFromThisPurchase =
     map (\<lambda>k. nat (n - creditsToDeduct - creditsFromThisPurchase + int k))
       [0 ..< nat creditsFromThisPurchase]"

definition credit_usage_row :: "nat \<Rightarrow> purchase \<Rightarrow> usage_row" where
  "credit_usage_row u creditPurchase =
     \<lparr>usage_user_id = u, usage_purchase_id = Some (pid creditPurchase),
      usage_subscription_id = subscription_id creditPurchase,
      credits_used = 1, api_key_used = False\<rparr>"

function batch_deduct_loop ::
  "(site \<Rightarrow> bool) \<Rightarrow> nat \<Rightarrow> int \<Rightarrow> int \<Rightarrow> nat \<Rightarrow> int \<Rightarrow> db \<Rightarrow> event list
     \<Rightarrow> response option \<times> db \<times> event list" where
  "batch_deduct_loop faults u now n i creditsToDeduct d cs =
     (if creditsToDeduct > 0 then
        (case find_oldest (faults (Find i)) u now (credit_purchases d) of
           None \<Rightarrow>
             (Some \<lparr>status = 402, error_text = Some ''Failed to deduct credits'',
                    credits_field = None\<rparr>, d, cs @ [Store (Find i)])
         | Some creditPurchase \<Rightarrow>
             (let creditsFromThisPurchase =
                    min creditsToDeduct (remaining_credits creditPurchase)
              in if faults (Update i) then
                   (Some \<lparr>status = 500, error_text = Some ''Failed to deduct credit'',
                          credits_field = None\<rparr>, d,
                    cs @ [Store (Find i), Store (Update i)])
                 else
                   (let resultIndexes =
                          result_indexes n (creditsToDeduct - creditsFromThisPurchase)
                            creditsFromThisPurchase
                    in batch_deduct_loop faults u now n (Suc i)
                         (creditsToDeduct - creditsFromThisPurchase)
                         (d\<lparr>credit_purchases :=
                              set_remaining (pid creditPurchase)
                                (remaining_credits creditPurchase - creditsFromThisPurchase)
                                (credit_purchases d),
                            api_usage :=
                              insert_usage_rows faults (credit_usage_row u creditPurchase)
                                resultIndexes (api_usage d)\<rparr>)
                         (cs @ [Store (Find i), Store (Update i)]
                             @ map (\<lambda>j. Store (Insert_usage j)) resultIndexes))))
      else (None, d, cs))"
  by pat_completeness auto
termination
proof (relation "measure (\<lambda>(faults, u, now, n, i, creditsToDeduct, d, cs). nat creditsToDeduct)",
    goal_cases)
  case 1
  show ?case by simp
next
  case (2 faults u now n i creditsToDeduct d cs creditPurchase creditsFromThisPurchase resultIndexes)
  let ?rows = "order_by_created_at (filter (js_eligible u now) (credit_purchases d))"
  from 2 have "limit1_single ?rows = Some creditPurchase"
    by (simp add: find_oldest_def split: if_splits)
  then have "creditPurchase \<in> set ?rows"
    by (cases ?rows) auto
  then have "0 < remaining_credits creditPurchase"
    by (simp add: order_by_created_at_def js_eligible_def)
  with 2 show ?case
    by simp
qed

declare batch_deduct_loop.simps [simp del]


text \<open>
  The handler. \<open>now1\<close> is the time of the check before the OpenAI calls, \<open>now2\<close> the time
  of the deduction; \<open>completion\<close> is the outcome of \<^verbatim>\<open>Promise.all\<close> over the calls.
  \<open>error_text\<close> of the first 402 is the literal head of the template string.
\<close>

definition analyze_batch ::
  "(site \<Rightarrow> bool) \<Rightarrow> nat \<Rightarrow> bool \<Rightarrow> nat \<Rightarrow> compute \<Rightarrow> int \<Rightarrow> int \<Rightarrow> db \<Rightarrow> outcome" where
  "analyze_batch faults u isUsingOwnApiKey images_length completion now1 now2 d =
     (if images_length = 0 then
        \<lparr>resp = \<lparr>status = 400, error_text = Some ''Images array is required'',
                  credits_field = None\<rparr>, tables = d, calls = []\<rparr>
      else if images_length > 4 then
        \<lparr>resp = \<lparr>status = 400, error_text = Some ''Maximum 4 images allowed per batch'',
                  credits_field = None\<rparr>, tables = d, calls = []\<rparr>
      else
        let availableCredits =
              query_sum (faults First_check) (js_eligible u now1) (credit_purchases d);
            cs1 = (if isUsingOwnApiKey then [] else [Store First_check])
        in if \<not> isUsingOwnApiKey \<and> availableCredits < int images_length then
             \<lparr>resp = \<lparr>status = 402, error_text = Some ''Insufficient credits. Need '',
                       credits_field = Some availableCredits\<rparr>, tables = d, calls = cs1\<rparr>
           else
             (case completion of
                Compute_throws error_status \<Rightarrow>
                  \<lparr>resp = catch_response error_status, tables = d, calls = cs1 @ [Compute]\<rparr>
              | Compute_ok \<Rightarrow>
                  if \<not> isUsingOwnApiKey then
                    (case batch_deduct_loop faults u now2 (int images_length) 0
                            (int images_length) d (cs1 @ [Compute]) of
                       (Some r, d', cs) \<Rightarrow> \<lparr>resp = r, tables = d', calls = cs\<rparr>
                     | (None, d', cs) \<Rightarrow>
                         \<lparr>resp = \<lparr>status = 200, error_text = None,
                                   credits_field =
                                     Some (query_sum (faults Final_balance) (js_eligible u now2)
                                             (credit_purchases d'))\<rparr>,
                          tables = d', calls = cs @ [Store Final_balance]\<rparr>)
                  else
                    \<lparr>resp = \<lparr>status = 200, error_text = None, credits_field = None\<rparr>,
                     tables =
                       d\<lparr>api_usage :=
                           insert_usage_rows faults
                             \<lparr>usage_user_id = u, usage_purchase_id = None,
                              usage_subscription_id = None,
                              credits_used = 0, api_key_used = True\<rparr>
                             [0 ..< images_length] (api_usage d)\<rparr>,
                     calls = cs1 @ [Compute]
                               @ map (\<lambda>j. Store (Insert_usage j)) [0 ..< images_length]\<rparr>))"

section \<open>Single-image handler with the optimistic-lock loop (unnamed/part_000)\<close>

text \<open>
  \<^verbatim>\<open>while (retries > 0 && !creditDeducted)\<close>, with \<^verbatim>\<open>retries\<close> starting at 3. The result
  is either the early response or the \<^verbatim>\<open>purchaseId\<close> and \<^verbatim>\<open>subscriptionId\<close> of the
  block. The update is sent with the value read as a condition; \<^verbatim>\<open>creditResult\<close> is the
  updated row when exactly one row matched.
\<close>

fun optimistic_deduct_loop ::
  "(site \<Rightarrow> bool) \<Rightarrow> nat \<Rightarrow> int \<Rightarrow> nat \<Rightarrow> db \<Rightarrow> event list
     \<Rightarrow> (response + nat option \<times> nat option) \<times> db \<times> event list" where
  "optimistic_deduct_loop faults u now 0 d cs = (Inr (None, None), d, cs)"
| "optimistic_deduct_loop faults u now (Suc r) d cs =
     (let i = 3 - Suc r in
      case find_oldest (faults (Find i)) u now (credit_purchases d) of
        None \<Rightarrow>
          (Inl \<lparr>status = 402, error_text = Some ''No valid credits found'',
                 credits_field = None\<rparr>, d, cs @ [Store (Find i)])
      | Some creditPurchase \<Rightarrow>
          (let matched = filter (\<lambda>p. pid p = pid creditPurchase
                                    \<and> remaining_credits p = remaining_credits creditPurchase)
                           (credit_purchases d);
               creditResult = (if faults (Update i) then None else single matched);
               d' = (if faults (Update i) then d
                     else d\<lparr>credit_purchases :=
                            set_remaining_if (pid creditPurchase)
                              (remaining_credits creditPurchase)
                              (remaining_credits creditPurchase - 1) (credit_purchases d)\<rparr>);
               cs' = cs @ [Store (Find i), Store (Update i)]
           in if creditResult \<noteq> None then
                (Inr (Some (pid creditPurchase), subscription_id creditPurchase), d', cs')
              else if Suc r > 1 then optimistic_deduct_loop faults u now r d' cs'
              else
                (Inl \<lparr>status = 500,
                       error_text = Some ''Failed to deduct credit - please try again'',
                       credits_field = None\<rparr>, d', cs')))"

text \<open>
  The handler. \<open>now1\<close>, \<open>now2\<close> and \<open>now3\<close> are the times of the check before the OpenAI
  call, of the check and deduction after it, and of the final balance query. The
  \<^verbatim>\<open>purchaseId\<close> and \<^verbatim>\<open>subscriptionId\<close> that the usage row is built from are the ones
  declared before the \<^verbatim>\<open>if (!isUsingOwnApiKey)\<close> block; the block declares its own pair
  with \<^verbatim>\<open>let\<close> and assigns to that, so the outer pair keeps its \<^verbatim>\<open>null\<close>.
\<close>

definition analyze ::
  "(site \<Rightarrow> bool) \<Rightarrow> nat \<Rightarrow> bool \<Rightarrow> compute \<Rightarrow> int \<Rightarrow> int \<Rightarrow> int \<Rightarrow> db \<Rightarrow> outcome" where
  "analyze faults u isUsingOwnApiKey completion now1 now2 now3 d =
     (let availableCredits =
            query_sum (faults First_check) (js_active u now1) (credit_purchases d);
          cs1 = (if isUsingOwnApiKey then [] else [Store First_check])
      in if \<not> isUsingOwnApiKey \<and> (availableCredits = 0 \<or> availableCredits < 1) then
           \<lparr>resp = \<lparr>status = 402, error_text = Some ''Insufficient credits'',
                     credits_field = Some 0\<rparr>, tables = d, calls = cs1\<rparr>
         else
           (case completion of
              Compute_throws error_status \<Rightarrow>
                \<lparr>resp = catch_response error_status, tables = d, calls = cs1 @ [Compute]\<rparr>
            | Compute_ok \<Rightarrow>
                (let purchaseId = None; subscriptionId = None;
                     availableCredits2 =
                       query_sum (faults Second_check) (js_eligible u now2) (credit_purchases d);
                     deduction =
                       (if isUsingOwnApiKey then (Inr (None, None), d, cs1 @ [Compute])
                        else if faults Second_check \<or> availableCredits2 < 1 then
                          (Inl \<lparr>status = 402,
                                 error_text = Some
                                   ''Insufficient credits. Please add more credits to continue.'',
                                 credits_field = Some availableCredits2\<rparr>, d,
                           cs1 @ [Compute, Store Second_check])
                        else optimistic_deduct_loop faults u now2 3 d
                               (cs1 @ [Compute, Store Second_check]))
                 in case deduction of
                      (Inl r, d', cs) \<Rightarrow> \<lparr>resp = r, tables = d', calls = cs\<rparr>
                    | (Inr inner_ids, d', cs) \<Rightarrow>
                        \<lparr>resp = \<lparr>status = 200, error_text = None,
                                  credits_field =
                                    Some (query_sum (faults Final_balance) (js_active u now3)
                                            (credit_purchases d'))\<rparr>,
                         tables =
                           d'\<lparr>api_usage :=
                                insert_usage_rows faults
                                  \<lparr>usage_user_id = u, usage_purchase_id = purchaseId,
                                   usage_subscription_id = subscriptionId,
                                   credits_used = 1, api_key_used = isUsingOwnApiKey\<rparr>
                                  [0] (api_usage d')\<rparr>,
                         calls = cs @ [Store (Insert_usage 0), Store Final_balance]\<rparr>)))"

section \<open>Single-image handler calling \<^verbatim>\<open>use_credits\<close> (unnamed/part_001)\<close>

text \<open>
  As above up to the second check; the deduction is one \<^verbatim>\<open>rpc('use_credits')\<close> call with
  one credit, and the usage row takes the ids the function returned. \<^verbatim>\<open>creditError\<close> is
  set when the store fails on the call and when the function raises; either way the
  table is as it was.
\<close>

definition analyze_rpc ::
  "(site \<Rightarrow> bool) \<Rightarrow> nat \<Rightarrow> bool \<Rightarrow> compute \<Rightarrow> int \<Rightarrow> int \<Rightarrow> int \<Rightarrow> db \<Rightarrow> outcome" where
  "analyze_rpc faults u isUsingOwnApiKey completion now1 now2 now3 d =
     (let availableCredits =
            query_sum (faults First_check) (js_active u now1) (credit_purchases d);
          cs1 = (if isUsingOwnApiKey then [] else [Store First_check])
      in if \<not> isUsingOwnApiKey \<and> (availableCredits = 0 \<or> availableCredits < 1) then
           \<lparr>resp = \<lparr>status = 402, error_text = Some ''Insufficient credits'',
                     credits_field = Some 0\<rparr>, tables = d, calls = cs1\<rparr>
         else
           (case completion of
              Compute_throws error_status \<Rightarrow>
                \<lparr>resp = catch_response error_status, tables = d, calls = cs1 @ [Compute]\<rparr>
            | Compute_ok \<Rightarrow>
                (let availableCredits2 =
                       query_sum (faults Second_check) (js_eligible u now2) (credit_purchases d);
                     cs2 = cs1 @ [Compute, Store Second_check, Store Rpc_use_credits];
                     deduction =
                       (if isUsingOwnApiKey then (Inr (None, None), d, cs1 @ [Compute])
                        else if faults Second_check \<or> availableCredits2 < 1 then
                          (Inl \<lparr>status = 402,
                                 error_text = Some
                                   ''Insufficient credits. Please add more credits to continue.'',
                                 credits_field = Some availableCredits2\<rparr>, d,
                           cs1 @ [Compute, Store Second_check])
                        else if faults Rpc_use_credits then
                          (Inl \<lparr>status = 500, error_text = None, credits_field = None\<rparr>, d, cs2)
                        else
                          (case use_credits (credit_purchases d) now2 u 1 False of
                             (Inl creditError, tbl') \<Rightarrow>
                               (Inl \<lparr>status = 500, error_text = None, credits_field = None\<rparr>,
                                d\<lparr>credit_purchases := tbl'\<rparr>, cs2)
                           | (Inr creditResult, tbl') \<Rightarrow>
                               if \<not> success creditResult then
                                 (Inl \<lparr>status = 500,
                                        error_text = Some
                                          ''Failed to process credits. Please try again.'',
                                        credits_field = None\<rparr>,
                                  d\<lparr>credit_purchases := tbl'\<rparr>, cs2)
                               else
                                 (Inr (purchase_id creditResult,
                                       used_subscription_id creditResult),
                                  d\<lparr>credit_purchases := tbl'\<rparr>, cs2)))
                 in case deduction of
                      (Inl r, d', cs) \<Rightarrow> \<lparr>resp = r, tables = d', calls = cs\<rparr>
                    | (Inr (purchaseId, subscriptionId), d', cs) \<Rightarrow>
                        \<lparr>resp = \<lparr>status = 200, error_text = None,
                                  credits_field =
                                    Some (query_sum (faults Final_balance) (js_active u now3)
                                            (credit_purchases d'))\<rparr>,
                         tables =
                           d'\<lparr>api_usage :=
                                insert_usage_rows faults
                                  \<lparr>usage_user_id = u, usage_purchase_id = purchaseId,
                                   usage_subscription_id = subscriptionId,
                                   credits_used = 1, api_key_used = isUsingOwnApiKey\<rparr>
                                  [0] (api_usage d')\<rparr>,
                         calls = cs @ [Store (Insert_usage 0), Store Final_balance]\<rparr>)))"

section \<open>Balance endpoint (api/credits.js)\<close>

text \<open>
  \<^verbatim>\<open>handleGetCredits\<close>: an error of the first or second query is thrown and answered with
  500; \<open>credits_field\<close> is \<^verbatim>\<open>available_credits\<close>.
\<close>

definition handleGetCredits :: "(site \<Rightarrow> bool) \<Rightarrow> nat \<Rightarrow> int \<Rightarrow> db \<Rightarrow> outcome" where
  "handleGetCredits faults userId now d =
     (if faults Active_purchases then
        \<lparr>resp = \<lparr>status = 500, error_text = Some ''Failed to get credits'',
                  credits_field = None\<rparr>, tables = d, calls = [Store Active_purchases]\<rparr>
      else if faults All_purchases then
        \<lparr>resp = \<lparr>status = 500, error_text = Some ''Failed to get credits'',
                  credits_field = None\<rparr>, tables = d,
         calls = [Store Active_purchases, Store All_purchases]\<rparr>
      else
        let activePurchases = filter (js_active userId now) (credit_purchases d);
            availableCredits = (if length activePurchases > 0
                                then sum_remaining activePurchases else 0)
        in \<lparr>resp = \<lparr>status = 200, error_text = None, credits_field = Some availableCredits\<rparr>,
            tables = d,
            calls = [Store Active_purchases, Store All_purchases, Store Count_usage]\<rparr>)"


text \<open>
  \<^verbatim>\<open>handleAddCredits\<close>: a grant of 200 credits for 30 days, \<^verbatim>\<open>completed\<close> in test mode and
  \<^verbatim>\<open>pending\<close> otherwise. \<open>fresh_id\<close> stands for \<^verbatim>\<open>uuid_generate_v4()\<close>: an id that no
  row of the table has.
\<close>

definition fresh_id :: "nat list \<Rightarrow> nat" where
  "fresh_id ids = Suc (fold max ids 0)"

definition insert_purchase :: "bool \<Rightarrow> purchase \<Rightarrow> purchase list \<Rightarrow> purchase list" where
  "insert_purchase fault row tbl =
     (if fault then tbl else tbl @ [row\<lparr>pid := fresh_id (map pid tbl)\<rparr>])"

definition handleAddCredits ::
  "(site \<Rightarrow> bool) \<Rightarrow> nat \<Rightarrow> string option \<Rightarrow> bool \<Rightarrow> int \<Rightarrow> db \<Rightarrow> outcome" where
  "handleAddCredits faults userId payment_id test_mode now d =
     (if \<not> test_mode \<and> payment_id = None then
        \<lparr>resp = \<lparr>status = 400, error_text = Some ''Payment ID required'',
                  credits_field = None\<rparr>, tables = d, calls = []\<rparr>
      else if faults Insert_purchase then
        \<lparr>resp = \<lparr>status = 500, error_text = Some ''Failed to add credits'',
                  credits_field = None\<rparr>, tables = d, calls = [Store Insert_purchase]\<rparr>
      else
        let d' = d\<lparr>credit_purchases :=
                     insert_purchase False
                       \<lparr>pid = 0, user_id = userId, subscription_id = None, credits = 200,
                        remaining_credits = 200,
                        expires_at = Some (now + 30 * 24 * 60 * 60 * 1000),
                        payment_status = (if test_mode then Completed else Pending),
                        created_at = now\<rparr> (credit_purchases d)\<rparr>
        in \<lparr>resp = \<lparr>status = 200, error_text = None,
                     credits_field =
                       Some (query_sum (faults Final_balance) (js_active userId now)
                               (credit_purchases d'))\<rparr>,
            tables = d', calls = [Store Insert_purchase, Store Final_balance]\<rparr>)"

section \<open>Stripe webhook (unnamed/part_002)\<close>

text \<open>
  The objects Stripe sends, with the fields the handlers read. Metadata values and
  environment variables that the source passes through \<^verbatim>\<open>parseInt\<close> are integers here.
  The handlers are modelled on the four tables of the data model: the creation of the
  Stripe customer and the updates of the \<^verbatim>\<open>users\<close> table are left out (an exception in
  the former ends the handler before it writes to any of the four). The store client
  returns its errors, it does not throw; a handler does not look at the error of a call
  unless the model says so.
  On the schema of \<^verbatim>\<open>complete-database-setup.sql\<close> the table \<^verbatim>\<open>subscriptions\<close> has no column
  \<^verbatim>\<open>remaining_credits\<close>, which the insert of the subscription checkout and the update of
  the renewal name: there the store refuses both, the cases \<open>faults Insert_subscription\<close>
  and \<open>faults Update_subscription\<close>.
\<close>

record checkout_session =
  session_id :: string
  metadata_user_id :: "nat option"
  metadata_purchase_type :: string
  metadata_credits :: "int option"
  metadata_validity_days :: "int option"
  session_subscription :: string

record stripe_subscription =
  stripe_id :: string
  stripe_status :: string
  stripe_period_start :: int
  stripe_period_end :: int

record invoice =
  invoice_id :: string
  invoice_subscription :: "string option"
  billing_reason :: string
  invoice_period_end :: int

datatype event_data =
    Checkout_session_completed checkout_session
  | Customer_subscription_created stripe_subscription
  | Customer_subscription_updated stripe_subscription
  | Customer_subscription_deleted stripe_subscription
  | Invoice_payment_succeeded invoice
  | Invoice_payment_failed invoice
  | Unhandled string

record stripe_event =
  event_id :: string
  event_data :: event_data

record env =
  PRO_CREDITS_PER_MONTH :: "int option"
  PRO_VALIDITY_DAYS :: "int option"
  TOPUP_CREDITS :: "int option"

text \<open>\<^verbatim>\<open>a || b || c\<close> over values that may be missing.\<close>

definition or_else :: "'a option \<Rightarrow> 'a option \<Rightarrow> 'a \<Rightarrow> 'a" where
  "or_else a b c = (case a of Some x \<Rightarrow> x | None \<Rightarrow> (case b of Some y \<Rightarrow> y | None \<Rightarrow> c))"

text \<open>
  An insert into \<^verbatim>\<open>subscriptions\<close> is refused when the store fails or when a row with the
  same \<^verbatim>\<open>stripe_subscription_id\<close> exists (the column is \<^verbatim>\<open>UNIQUE\<close>); likewise
  \<^verbatim>\<open>subscription_history.stripe_event_id\<close>. The result of the first is the row
  \<^verbatim>\<open>.select().single()\<close> returns.
\<close>

definition insert_subscription ::
  "bool \<Rightarrow> subscription \<Rightarrow> subscription list \<Rightarrow> subscription option \<times> subscription list" where
  "insert_subscription fault row tbl =
     (if fault \<or> stripe_subscription_id row \<in> set (map stripe_subscription_id tbl)
      then (None, tbl)
      else (let r = row\<lparr>sub_id := fresh_id (map sub_id tbl)\<rparr> in (Some r, tbl @ [r])))"

definition insert_history :: "bool \<Rightarrow> history_row \<Rightarrow> history_row list \<Rightarrow> history_row list" where
  "insert_history fault row tbl =
     (if fault \<or> stripe_event_id row \<in> set (map stripe_event_id tbl) then tbl
      else tbl @ [row])"

text \<open>\<^verbatim>\<open>.from('subscriptions').select('*').eq('stripe_subscription_id', ref).single()\<close>.\<close>

definition subscription_by_ref :: "bool \<Rightarrow> string \<Rightarrow> subscription list \<Rightarrow> subscription option" where
  "subscription_by_ref fault ref tbl =
     (if fault then None else single (filter (\<lambda>s. stripe_subscription_id s = ref) tbl))"

definition handleCheckoutCompleted ::
  "(site \<Rightarrow> bool) \<Rightarrow> env \<Rightarrow> int \<Rightarrow> checkout_session \<Rightarrow> db \<Rightarrow> db" where
  "handleCheckoutCompleted faults e now session d =
     (case metadata_user_id session of
        None \<Rightarrow> d
      | Some userId \<Rightarrow>
          if metadata_purchase_type session = ''subscription'' then
            (let credits = or_else (metadata_credits session) (PRO_CREDITS_PER_MONTH e) 200;
                 validityDays =
                   or_else (metadata_validity_days session) (PRO_VALIDITY_DAYS e) 30
             in case insert_subscription (faults Insert_subscription)
                       \<lparr>sub_id = 0, sub_user_id = userId,
                        stripe_subscription_id = session_subscription session,
                        sub_status = ''active'', current_period_start = now,
                        current_period_end = now + validityDays * 24 * 60 * 60 * 1000,
                        credits_per_period = credits\<rparr> (subscriptions d) of
                  (None, _) \<Rightarrow> d
                | (Some subscription, subs') \<Rightarrow>
                    d\<lparr>subscriptions := subs',
                      credit_purchases :=
                        insert_purchase (faults Insert_purchase)
                          \<lparr>pid = 0, user_id = userId,
                           subscription_id = Some (sub_id subscription),
                           credits = credits, remaining_credits = credits,
                           expires_at = Some (current_period_end subscription),
                           payment_status = Completed, created_at = now\<rparr>
                          (credit_purchases d),
                      subscription_history :=
                        insert_history (faults Insert_history)
                          \<lparr>history_subscription_id = sub_id subscription,
                           history_user_id = userId, history_event_type = ''created'',
                           stripe_event_id = session_id session\<rparr>
                          (subscription_history d)\<rparr>)
          else if metadata_purchase_type session = ''topup'' then
            (let topupCredits = or_else (metadata_credits session) (TOPUP_CREDITS e) 100;
                 activeSubscription =
                   (if faults Select_subscription then None
                    else single (filter (\<lambda>s. sub_user_id s = userId \<and> sub_status s = ''active'')
                                   (subscriptions d)))
             in case activeSubscription of
                  None \<Rightarrow> d
                | Some a \<Rightarrow>
                    d\<lparr>credit_purchases :=
                        insert_purchase (faults Insert_purchase)
                          \<lparr>pid = 0, user_id = userId, subscription_id = Some (sub_id a),
                           credits = topupCredits, remaining_credits = topupCredits,
                           expires_at = Some (current_period_end a),
                           payment_status = Completed, created_at = now\<rparr>
                          (credit_purchases d)\<rparr>)
          else d)"

definition update_subscriptions ::
  "bool \<Rightarrow> (subscription \<Rightarrow> bool) \<Rightarrow> (subscription \<Rightarrow> subscription) \<Rightarrow> subscription list
     \<Rightarrow> subscription list" where
  "update_subscriptions fault cond f tbl =
     (if fault then tbl else map (\<lambda>s. if cond s then f s else s) tbl)"

definition handleSubscriptionUpdate ::
  "(site \<Rightarrow> bool) \<Rightarrow> stripe_subscription \<Rightarrow> db \<Rightarrow> db" where
  "handleSubscriptionUpdate faults sub d =
     (case subscription_by_ref (faults Select_subscription) (stripe_id sub) (subscriptions d) of
        None \<Rightarrow> d
      | Some existingSubscription \<Rightarrow>
          (let status = (if stripe_status sub = ''active'' then ''active''
                         else if stripe_status sub = ''past_due'' then ''past_due''
                         else if stripe_status sub = ''canceled'' then ''cancelled''
                         else ''expired'')
           in d\<lparr>subscriptions :=
                   update_subscriptions (faults Update_subscription)
                     (\<lambda>s. stripe_subscription_id s = stripe_id sub)
                     (\<lambda>s. s\<lparr>sub_status := status,
                             current_period_start := stripe_period_start sub * 1000,
                             current_period_end := stripe_period_end sub * 1000\<rparr>)
                     (subscriptions d),
                 subscription_history :=
                   insert_history (faults Insert_history)
                     \<lparr>history_subscription_id = sub_id existingSubscription,
                      history_user_id = sub_user_id existingSubscription,
                      history_event_type = ''updated'', stripe_event_id = stripe_id sub\<rparr>
                     (subscription_history d)\<rparr>))"

definition handleSubscriptionDeleted ::
  "(site \<Rightarrow> bool) \<Rightarrow> stripe_subscription \<Rightarrow> db \<Rightarrow> db" where
  "handleSubscriptionDeleted faults sub d =
     (case subscription_by_ref (faults Select_subscription) (stripe_id sub) (subscriptions d) of
        None \<Rightarrow> d
      | Some existingSubscription \<Rightarrow>
          d\<lparr>subscriptions :=
              update_subscriptions (faults Update_subscription)
                (\<lambda>s. stripe_subscription_id s = stripe_id sub)
                (\<lambda>s. s\<lparr>sub_status := ''cancelled''\<rparr>) (subscriptions d),
            subscription_history :=
              insert_history (faults Insert_history)
                \<lparr>history_subscription_id = sub_id existingSubscription,
                 history_user_id = sub_user_id existingSubscription,
                 history_event_type = ''cancelled'', stripe_event_id = stripe_id sub\<rparr>
                (subscription_history d)\<rparr>)"

definition handleInvoicePaymentSucceeded ::
  "(site \<Rightarrow> bool) \<Rightarrow> int \<Rightarrow> invoice \<Rightarrow> db \<Rightarrow> db" where
  "handleInvoicePaymentSucceeded faults now invoice d =
     (case invoice_subscription invoice of
        None \<Rightarrow> d
      | Some ref \<Rightarrow>
          (case subscription_by_ref (faults Select_subscription) ref (subscriptions d) of
             None \<Rightarrow> d
           | Some subscription \<Rightarrow>
               if billing_reason invoice = ''subscription_cycle'' then
                 d\<lparr>subscriptions :=
                     update_subscriptions (faults Update_subscription)
                       (\<lambda>s. sub_id s = sub_id subscription)
                       (\<lambda>s. s\<lparr>sub_status := ''active''\<rparr>) (subscriptions d),
                   credit_purchases :=
                     insert_purchase (faults Insert_purchase)
                       \<lparr>pid = 0, user_id = sub_user_id subscription,
                        subscription_id = Some (sub_id subscription),
                        credits = credits_per_period subscription,
                        remaining_credits = credits_per_period subscription,
                        expires_at = Some (invoice_period_end invoice * 1000),
                        payment_status = Completed, created_at = now\<rparr>
                       (credit_purchases d),
                   subscription_history :=
                     insert_history (faults Insert_history)
                       \<lparr>history_subscription_id = sub_id subscription,
                        history_user_id = sub_user_id subscription,
                        history_event_type = ''renewed'', stripe_event_id = invoice_id invoice\<rparr>
                       (subscription_history d)\<rparr>
               else d))"

definition handleInvoicePaymentFailed :: "(site \<Rightarrow> bool) \<Rightarrow> invoice \<Rightarrow> db \<Rightarrow> db" where
  "handleInvoicePaymentFailed faults invoice d =
     (case invoice_subscription invoice of
        None \<Rightarrow> d
      | Some ref \<Rightarrow>
          (case subscription_by_ref (faults Select_subscription) ref (subscriptions d) of
             None \<Rightarrow> d
           | Some subscription \<Rightarrow>
               d\<lparr>subscriptions :=
                   update_subscriptions (faults Update_subscription)
                     (\<lambda>s. sub_id s = sub_id subscription)
                     (\<lambda>s. s\<lparr>sub_status := ''past_due''\<rparr>) (subscriptions d)\<rparr>))"

text \<open>
  The endpoint, after the signature check: the \<^verbatim>\<open>switch (event.type)\<close>. The id of the
  event is part of what Stripe delivers; no handler is given it.
\<close>

definition stripe_webhook :: "(site \<Rightarrow> bool) \<Rightarrow> env \<Rightarrow> int \<Rightarrow> stripe_event \<Rightarrow> db \<Rightarrow> db" where
  "stripe_webhook faults e now ev d =
     (case event_data ev of
        Checkout_session_completed session \<Rightarrow> handleCheckoutCompleted faults e now session d
      | Customer_subscription_created sub \<Rightarrow> handleSubscriptionUpdate faults sub d
      | Customer_subscription_updated sub \<Rightarrow> handleSubscriptionUpdate faults sub d
      | Customer_subscription_deleted sub \<Rightarrow> handleSubscriptionDeleted faults sub d
      | Invoice_payment_succeeded invoice \<Rightarrow> handleInvoicePaymentSucceeded faults now invoice d
      | Invoice_payment_failed invoice \<Rightarrow> handleInvoicePaymentFailed faults invoice d
      | Unhandled t \<Rightarrow> d)"


section \<open>Coupon redemption (unnamed/part_004)\<close>

text \<open>
  After authentication and the creation of the user's profile row. \<open>configured\<close> and
  \<open>matches\<close> are the two tests on the coupon code; \<open>stamp\<close> is the text of
  \<^verbatim>\<open>Date.now()\<close> that the placeholder references end in.
\<close>

definition redeem_coupon ::
  "(site \<Rightarrow> bool) \<Rightarrow> env \<Rightarrow> bool \<Rightarrow> bool \<Rightarrow> nat \<Rightarrow> int \<Rightarrow> string \<Rightarrow> db \<Rightarrow> outcome" where
  "redeem_coupon faults e configured matches userId now stamp d =
     (let PRO_CREDITS = or_else None (PRO_CREDITS_PER_MONTH e) 200;
          PRO_VALIDITY = or_else None (PRO_VALIDITY_DAYS e) 30;
          failure = (\<lambda>code text d' cs.
            \<lparr>resp = \<lparr>status = code, error_text = Some text, credits_field = None\<rparr>,
             tables = d', calls = cs\<rparr>)
      in if \<not> configured then failure 404 ''Coupon system not configured'' d []
         else if \<not> matches then failure 404 ''Invalid coupon code'' d []
         else if (if faults Select_subscription then None
                  else single (filter (\<lambda>s. sub_user_id s = userId \<and> sub_status s = ''active''
                                            \<and> now < current_period_end s) (subscriptions d)))
                 \<noteq> None
         then failure 400 ''You already have an active Pro subscription'' d
                [Store Select_subscription]
         else
           (case insert_subscription (faults Insert_subscription)
                   \<lparr>sub_id = 0, sub_user_id = userId,
                    stripe_subscription_id = ''COUPON_SUB_'' @ stamp,
                    sub_status = ''active'', current_period_start = now,
                    current_period_end = now + PRO_VALIDITY * 24 * 60 * 60 * 1000,
                    credits_per_period = PRO_CREDITS\<rparr> (subscriptions d) of
              (None, _) \<Rightarrow>
                (if faults Insert_subscription
                 then failure 500 ''Failed to redeem coupon. Please try again.'' d
                        [Store Select_subscription, Store Insert_subscription]
                 else failure 400 ''You have already redeemed this coupon'' d
                        [Store Select_subscription, Store Insert_subscription])
            | (Some subscription, subs') \<Rightarrow>
                if faults Insert_purchase
                then failure 500 ''Failed to redeem coupon. Please try again.''
                       (d\<lparr>subscriptions := subs'\<rparr>)
                       [Store Select_subscription, Store Insert_subscription,
                        Store Insert_purchase]
                else
                  \<lparr>resp = \<lparr>status = 200, error_text = None, credits_field = Some PRO_CREDITS\<rparr>,
                   tables =
                     d\<lparr>subscriptions := subs',
                       credit_purchases :=
                         insert_purchase False
                           \<lparr>pid = 0, user_id = userId,
                            subscription_id = Some (sub_id subscription),
                            credits = PRO_CREDITS, remaining_credits = PRO_CREDITS,
                            expires_at = Some (now + PRO_VALIDITY * 24 * 60 * 60 * 1000),
                            payment_status = Completed, created_at = now\<rparr>
                           (credit_purchases d),
                       subscription_history :=
                         insert_history (faults Insert_history)
                           \<lparr>history_subscription_id = sub_id subscription,
                            history_user_id = userId, history_event_type = ''created'',
                            stripe_event_id = ''COUPON_REDEEM_'' @ stamp\<rparr>
                           (subscription_history d)\<rparr>,
                   calls = [Store Select_subscription, Store Insert_subscription,
                            Store Insert_purchase, Store Insert_history]\<rparr>))"

section \<open>What a step may do to the purchases\<close>

text \<open>
  A row that shrinks keeps all its columns but \<^verbatim>\<open>remaining_credits\<close>, which does not grow,
  does not fall below zero and does not pass \<^verbatim>\<open>credits\<close>. In a step of the ledger every
  row that was there keeps its place and shrinks, and a row that is new is a grant with
  all its credits.
\<close>

definition row_shrinks :: "purchase \<Rightarrow> purchase \<Rightarrow> bool" where
  "row_shrinks p p' =
     (p' = p\<lparr>remaining_credits := remaining_credits p'\<rparr>
      \<and> remaining_credits p' \<le> remaining_credits p
      \<and> (0 \<le> remaining_credits p \<longrightarrow> 0 \<le> remaining_credits p')
      \<and> (remaining_credits p \<le> credits p \<longrightarrow> remaining_credits p' \<le> credits p'))"

definition ledger_step :: "purchase list \<Rightarrow> purchase list \<Rightarrow> bool" where
  "ledger_step tbl tbl' =
     (length tbl \<le> length tbl'
      \<and> list_all2 row_shrinks tbl (take (length tbl) tbl')
      \<and> list_all (\<lambda>q. remaining_credits q = credits q) (drop (length tbl) tbl'))"

section \<open>Concurrent runs of the optimistic-lock loop\<close>



text \<open>
  Several runs for the same owner against one table, all started at the instant \<open>now\<close>.
  A schedule names, call by call, the run whose next store call the store serves;
  \<open>step\<close> is what one store call of a run does.
\<close>

fun interleave ::
  "('r \<Rightarrow> purchase list \<Rightarrow> 'r \<times> purchase list) \<Rightarrow> nat list \<Rightarrow> 'r list \<times> purchase list
     \<Rightarrow> 'r list \<times> purchase list" where
  "interleave step [] cfg = cfg"
| "interleave step (k # schedule) (runs, tbl) =
     (if k < length runs then
        (case step (runs ! k) tbl of
           (r', tbl') \<Rightarrow> interleave step schedule (runs[k := r'], tbl'))
      else interleave step schedule (runs, tbl))"

text \<open>
  The deduction loop of the batch handler, one store call at a time (the usage inserts,
  which do not touch the purchases, left out): a run is about to send the find query with
  \<^verbatim>\<open>creditsToDeduct\<close> credits still to take, or about to send the update for the row it
  read, or has left the loop, with all credits taken or with an early response.
\<close>

datatype batch_run =
    Batch_find int
  | Batch_update int purchase
  | Batch_deducted
  | Batch_responded nat

fun batch_step :: "nat \<Rightarrow> int \<Rightarrow> batch_run \<Rightarrow> purchase list \<Rightarrow> batch_run \<times> purchase list" where
  "batch_step u now (Batch_find creditsToDeduct) tbl =
     (if creditsToDeduct > 0 then
        (case find_oldest False u now tbl of
           None \<Rightarrow> (Batch_responded 402, tbl)
         | Some creditPurchase \<Rightarrow> (Batch_update creditsToDeduct creditPurchase, tbl))
      else (Batch_deducted, tbl))"
| "batch_step u now (Batch_update creditsToDeduct creditPurchase) tbl =
     (let creditsFromThisPurchase = min creditsToDeduct (remaining_credits creditPurchase)
      in (Batch_find (creditsToDeduct - creditsFromThisPurchase),
          set_remaining (pid creditPurchase)
            (remaining_credits creditPurchase - creditsFromThisPurchase) tbl))"
| "batch_step u now r tbl = (r, tbl)"



definition balance :: "nat \<Rightarrow> int \<Rightarrow> purchase list \<Rightarrow> int" where
  "balance u now tbl = sum_remaining (filter (js_eligible u now) tbl)"

section \<open>Example rows\<close>

text \<open>
  Two completed, unexpired purchases of owner 7, \<open>P1\<close> older with one credit left and \<open>P2\<close>
  newer with ten; \<open>P2\<close> comes first in the table.
\<close>

definition P1 :: purchase where
  "P1 = \<lparr>pid = 1, user_id = 7, subscription_id = Some 3, credits = 10, remaining_credits = 1,
          expires_at = Some 100, payment_status = Completed, created_at = 10\<rparr>"

definition P2 :: purchase where
  "P2 = \<lparr>pid = 2, user_id = 7, subscription_id = None, credits = 10, remaining_credits = 10,
          expires_at = Some 100, payment_status = Completed, created_at = 20\<rparr>"

definition empty_db :: db where
  "empty_db = \<lparr>subscriptions = [], credit_purchases = [], api_usage = [],
               subscription_history = []\<rparr>"

definition no_faults :: "site \<Rightarrow> bool" where
  "no_faults s = False"

text \<open>A purchase of owner 7 that has not been paid: 200 credits, \<^verbatim>\<open>pending\<close>, unexpired.\<close>

definition pending_purchase :: purchase where
  "pending_purchase =
     \<lparr>pid = 5, user_id = 7, subscription_id = None, credits = 200, remaining_credits = 200,
      expires_at = Some 100, payment_status = Pending, created_at = 10\<rparr>"

section \<open>Reading the record of calls\<close>

text \<open>
  The store calls of a deduction (the find and update queries of the loops, the
  \<^verbatim>\<open>use_credits\<close> call) and the two credit checks.
\<close>

definition deduction_call :: "event \<Rightarrow> bool" where
  "deduction_call e =
     (case e of
        Store (Find _) \<Rightarrow> True
      | Store (Update _) \<Rightarrow> True
      | Store Rpc_use_credits \<Rightarrow> True
      | _ \<Rightarrow> False)"

definition credit_check :: "event \<Rightarrow> bool" where
  "credit_check e = (e = Store First_check \<or> e = Store Second_check)"

text \<open>
  No deduction call is made before the OpenAI call, and none at all unless that call
  returned.
\<close>

definition deducts_only_after_compute :: "compute \<Rightarrow> event list \<Rightarrow> bool" where
  "deducts_only_after_compute completion cs =
     (list_all (\<lambda>e. \<not> deduction_call e) (takeWhile (\<lambda>e. e \<noteq> Compute) cs)
      \<and> (list_ex deduction_call cs \<longrightarrow> completion = Compute_ok))"

section \<open>Example events\<close>

definition no_env :: env where
  "no_env = \<lparr>PRO_CREDITS_PER_MONTH = None, PRO_VALIDITY_DAYS = None, TOPUP_CREDITS = None\<rparr>"

text \<open>
  A top-up checkout of owner 7 and the invoice of a cycle renewal of that owner's
  subscription \<^verbatim>\<open>sub_1\<close>, each with its event id.
\<close>

definition topup_event :: stripe_event where
  "topup_event =
     \<lparr>event_id = ''evt_2'',
      event_data = Checkout_session_completed
        \<lparr>session_id = ''cs_2'', metadata_user_id = Some 7,
         metadata_purchase_type = ''topup'', metadata_credits = None,
         metadata_validity_days = None, session_subscription = ''''\<rparr>\<rparr>"

definition renewal_event :: stripe_event where
  "renewal_event =
     \<lparr>event_id = ''evt_3'',
      event_data = Invoice_payment_succeeded
        \<lparr>invoice_id = ''in_1'', invoice_subscription = Some ''sub_1'',
         billing_reason = ''subscription_cycle'', invoice_period_end = 5000\<rparr>\<rparr>"

text \<open>
  A store that holds the active subscription \<^verbatim>\<open>sub_1\<close> of owner 7, the purchase of 200
  credits granted with it, and the history row of its creation.
\<close>

definition subscribed_db :: db where
  "subscribed_db =
     \<lparr>subscriptions =
        [\<lparr>sub_id = 1, sub_user_id = 7, stripe_subscription_id = ''sub_1'',
          sub_status = ''active'', current_period_start = 20,
          current_period_end = 2592000020, credits_per_period = 200\<rparr>],
      credit_purchases =
        [\<lparr>pid = 1, user_id = 7, subscription_id = Some 1, credits = 200,
          remaining_credits = 200, expires_at = Some 2592000020,
          payment_status = Completed, created_at = 20\<rparr>],
      api_usage = [],
      subscription_history =
        [\<lparr>history_subscription_id = 1, history_user_id = 7,
          history_event_type = ''created'', stripe_event_id = ''cs_1''\<rparr>]\<rparr>"

section \<open>Example of concurrent runs\<close>




section \<open>Facts about the purchases table\<close>

subsection \<open>Updates by id\<close>

lemma map_pid_set_remaining [simp]: "map pid (set_remaining i v tbl) = map pid tbl"
  by (simp add: set_remaining_def)

lemma map_pid_decrement_remaining [simp]: "map pid (decrement_remaining i v tbl) = map pid tbl"
  by (simp add: decrement_remaining_def)

lemma map_pid_set_remaining_if [simp]: "map pid (set_remaining_if i x v tbl) = map pid tbl"
  by (simp add: set_remaining_if_def)

lemma length_set_remaining [simp]: "length (set_remaining i v tbl) = length tbl"
  by (simp add: set_remaining_def)

lemma set_remaining_other:
  "p \<in> set tbl \<Longrightarrow> pid p \<noteq> i \<Longrightarrow> p \<in> set (set_remaining i v tbl)"
  by (force simp: set_remaining_def)

lemma same_pid_same_row:
  "distinct (map pid tbl) \<Longrightarrow> p \<in> set tbl \<Longrightarrow> q \<in> set tbl \<Longrightarrow> pid p = pid q \<Longrightarrow> p = q"
  by (meson distinct_map inj_onD)

lemma decrement_is_set:
  assumes "distinct (map pid tbl)" and "p \<in> set tbl"
  shows "decrement_remaining (pid p) v tbl = set_remaining (pid p) (remaining_credits p - v) tbl"
proof -
  have "q = p" if "q \<in> set tbl" "pid q = pid p" for q
    using same_pid_same_row[OF assms(1) that(1) assms(2) that(2)] .
  then show ?thesis
    unfolding decrement_remaining_def set_remaining_def by (intro map_cong) auto
qed

lemma sum_set_remaining:
  "distinct (map pid tbl) \<Longrightarrow> p \<in> set tbl \<Longrightarrow>
   sum_remaining (set_remaining (pid p) v tbl) = sum_remaining tbl - remaining_credits p + v"
proof (induction tbl)
  case Nil
  then show ?case by simp
next
  case (Cons q tbl)
  show ?case
  proof (cases "q = p")
    case True
    with Cons.prems have "pid p \<notin> pid ` set tbl" by simp
    then have "\<forall>r\<in>set tbl. pid r \<noteq> pid p" by (metis image_eqI)
    then have "set_remaining (pid p) v tbl = tbl"
      by (simp add: set_remaining_def map_idI)
    with True show ?thesis by (simp add: sum_remaining_def set_remaining_def)
  next
    case False
    with Cons.prems have "p \<in> set tbl" "pid q \<noteq> pid p" by auto
    with Cons show ?thesis by (simp add: sum_remaining_def set_remaining_def)
  qed
qed

subsection \<open>Emptying a list of rows\<close>

lemma map_pid_fold_empty [simp]:
  "map pid (fold (\<lambda>e. set_remaining (pid e) 0) es tbl) = map pid tbl"
  by (induction es arbitrary: tbl) simp_all

lemma fold_empty_other:
  "p \<in> set tbl \<Longrightarrow> pid p \<notin> pid ` set es \<Longrightarrow> p \<in> set (fold (\<lambda>e. set_remaining (pid e) 0) es tbl)"
  by (induction es arbitrary: tbl) (auto simp: set_remaining_other)

lemma sum_fold_empty:
  "distinct (map pid tbl) \<Longrightarrow> distinct (map pid es) \<Longrightarrow> set es \<subseteq> set tbl \<Longrightarrow>
   sum_remaining (fold (\<lambda>e. set_remaining (pid e) 0) es tbl) = sum_remaining tbl - sum_remaining es"
proof (induction es arbitrary: tbl)
  case Nil
  then show ?case by (simp add: sum_remaining_def)
next
  case (Cons e es)
  have "set es \<subseteq> set (set_remaining (pid e) 0 tbl)"
  proof
    fix x assume "x \<in> set es"
    moreover from Cons.prems have "pid e \<notin> pid ` set es" by simp
    ultimately have "pid x \<noteq> pid e" by (metis image_eqI)
    moreover from \<open>x \<in> set es\<close> Cons.prems have "x \<in> set tbl" by auto
    ultimately have "x \<in> set tbl" "pid x \<noteq> pid e" by simp_all
    then show "x \<in> set (set_remaining (pid e) 0 tbl)" by (rule set_remaining_other)
  qed
  moreover have "distinct (map pid (set_remaining (pid e) 0 tbl))"
    using Cons.prems by simp
  ultimately have "sum_remaining (fold (\<lambda>e. set_remaining (pid e) 0) es (set_remaining (pid e) 0 tbl))
      = sum_remaining (set_remaining (pid e) 0 tbl) - sum_remaining es"
    using Cons.IH Cons.prems by simp
  moreover have "sum_remaining (set_remaining (pid e) 0 tbl) = sum_remaining tbl - remaining_credits e"
    using sum_set_remaining[of tbl e 0] Cons.prems by simp
  ultimately show ?case by (simp add: sum_remaining_def)
qed

subsection \<open>The eligible rows in order\<close>

lemma distinct_map_insort_key:
  "distinct (map f (insort_key g x xs)) = (f x \<notin> f ` set xs \<and> distinct (map f xs))"
  by (induction xs) (auto simp: set_insort_key)

lemma distinct_map_sort_key: "distinct (map f (sort_key g xs)) = distinct (map f xs)"
  by (induction xs) (simp_all add: distinct_map_insort_key)

lemma distinct_pid_ordered:
  "distinct (map pid tbl) \<Longrightarrow> distinct (map pid (order_by_created_at (filter P tbl)))"
  by (simp add: order_by_created_at_def distinct_map_sort_key distinct_map_filter)

lemma set_ordered [simp]: "set (order_by_created_at (filter P tbl)) = {p \<in> set tbl. P p}"
  by (simp add: order_by_created_at_def)

lemma sum_remaining_append [simp]:
  "sum_remaining (xs @ ys) = sum_remaining xs + sum_remaining ys"
  by (simp add: sum_remaining_def)

lemma sum_remaining_Cons [simp]:
  "sum_remaining (x # xs) = remaining_credits x + sum_remaining xs"
  by (simp add: sum_remaining_def)

lemma sum_remaining_Nil [simp]: "sum_remaining [] = 0"
  by (simp add: sum_remaining_def)

lemma sum_remaining_nonneg: "\<forall>p\<in>set rows. 0 < remaining_credits p \<Longrightarrow> 0 \<le> sum_remaining rows"
  by (induction rows) auto

subsection \<open>The deduction loop of the batch handler\<close>

lemma sum_remaining_insort [simp]:
  "sum_remaining (insort_key g x xs) = remaining_credits x + sum_remaining xs"
  by (induction xs) simp_all

lemma sum_remaining_ordered [simp]: "sum_remaining (order_by_created_at xs) = sum_remaining xs"
  by (induction xs) (simp_all add: order_by_created_at_def)

lemma filter_after_emptying:
  "filter (js_eligible u now) (set_remaining i 0 tbl) =
   filter (\<lambda>p. pid p \<noteq> i) (filter (js_eligible u now) tbl)"
  by (induction tbl) (auto simp: set_remaining_def js_eligible_def)

lemma ordered_after_emptying_head:
  assumes "distinct (map pid tbl)"
    and "order_by_created_at (filter (js_eligible u now) tbl) = e # rest"
  shows "order_by_created_at (filter (js_eligible u now) (set_remaining (pid e) 0 tbl)) = rest"
proof -
  have d: "distinct (map pid (e # rest))"
    using distinct_pid_ordered[OF assms(1), of "js_eligible u now"] assms(2) by simp
  have "order_by_created_at (filter (js_eligible u now) (set_remaining (pid e) 0 tbl))
        = filter (\<lambda>p. pid p \<noteq> pid e) (order_by_created_at (filter (js_eligible u now) tbl))"
    by (simp add: filter_after_emptying order_by_created_at_def filter_sort)
  also have "\<dots> = filter (\<lambda>p. pid p \<noteq> pid e) rest"
    by (simp add: assms(2))
  also have "\<dots> = rest"
    using d by (intro filter_True) (metis distinct.simps(2) image_eqI list.simps(9) set_map)
  finally show ?thesis .
qed

lemma find_oldest_head:
  "order_by_created_at (filter (js_eligible u now) tbl) = e # rest \<Longrightarrow>
   find_oldest False u now tbl = Some e"
  by (simp add: find_oldest_def)

lemma batch_loop_fifo:
  "distinct (map pid (credit_purchases d)) \<Longrightarrow>
   order_by_created_at (filter (js_eligible u now) (credit_purchases d)) = es @ l # us \<Longrightarrow>
   sum_remaining es < c \<Longrightarrow> c \<le> sum_remaining es + remaining_credits l \<Longrightarrow>
   fst (batch_deduct_loop (\<lambda>_. False) u now n i c d cs) = None \<and>
   credit_purchases (fst (snd (batch_deduct_loop (\<lambda>_. False) u now n i c d cs))) =
     set_remaining (pid l) (remaining_credits l - (c - sum_remaining es))
       (fold (\<lambda>e. set_remaining (pid e) 0) es (credit_purchases d))"
proof (induction es arbitrary: d c i cs)
  case Nil
  then have found: "find_oldest False u now (credit_purchases d) = Some l"
    by (simp add: find_oldest_head)
  from Nil have c: "0 < c" "min c (remaining_credits l) = c" by auto
  show ?case
    by (subst (1 2) batch_deduct_loop.simps, simp add: found c Let_def,
        subst (1 2) batch_deduct_loop.simps, simp)
next
  case (Cons e es)
  have allpos: "\<forall>p\<in>set (order_by_created_at (filter (js_eligible u now) (credit_purchases d))).
                  0 < remaining_credits p"
    by (simp add: js_eligible_def)
  then have "\<forall>p\<in>set es. 0 < remaining_credits p" and epos: "0 < remaining_credits e"
    using Cons.prems(2) by auto
  then have "0 \<le> sum_remaining es" by (simp add: sum_remaining_nonneg)
  with Cons.prems epos have c: "0 < c" "min c (remaining_credits e) = remaining_credits e"
    by auto
  have found: "find_oldest False u now (credit_purchases d) = Some e"
    using Cons.prems(2) by (simp add: find_oldest_head)
  let ?d = "d\<lparr>credit_purchases := set_remaining (pid e) 0 (credit_purchases d),
               api_usage := insert_usage_rows (\<lambda>_. False) (credit_usage_row u e)
                  (result_indexes n (c - remaining_credits e) (remaining_credits e)) (api_usage d)\<rparr>"
  have rows': "order_by_created_at (filter (js_eligible u now) (credit_purchases ?d)) = es @ l # us"
    using ordered_after_emptying_head[OF Cons.prems(1), of u now e "es @ l # us"] Cons.prems(2)
    by simp
  have IH: "fst (batch_deduct_loop (\<lambda>_. False) u now n i' (c - remaining_credits e) ?d cs') = None \<and>
   credit_purchases (fst (snd (batch_deduct_loop (\<lambda>_. False) u now n i' (c - remaining_credits e) ?d cs'))) =
     set_remaining (pid l) (remaining_credits l - (c - remaining_credits e - sum_remaining es))
       (fold (\<lambda>e. set_remaining (pid e) 0) es (credit_purchases ?d))" for i' cs'
    using Cons.prems by (intro Cons.IH rows') auto
  show ?case
    by (subst (1 2) batch_deduct_loop.simps, simp add: found c Let_def IH algebra_simps)
qed

lemma sum_closed_form:
  assumes dist: "distinct (map pid tbl)" and dr: "distinct (map pid (es @ l # us))"
    and sub: "set (es @ l # us) \<subseteq> set tbl"
  shows "sum_remaining (set_remaining (pid l) v (fold (\<lambda>e. set_remaining (pid e) 0) es tbl))
         = sum_remaining tbl - sum_remaining es - remaining_credits l + v"
proof -
  let ?T = "fold (\<lambda>e. set_remaining (pid e) 0) es tbl"
  have "pid l \<notin> pid ` set es" using dr by auto
  with sub have "l \<in> set ?T" by (intro fold_empty_other) auto
  moreover have "distinct (map pid ?T)" using dist by simp
  ultimately have "sum_remaining (set_remaining (pid l) v ?T)
      = sum_remaining ?T - remaining_credits l + v"
    by (rule sum_set_remaining[rotated])
  moreover have "sum_remaining ?T = sum_remaining tbl - sum_remaining es"
    using dist dr sub by (intro sum_fold_empty) auto
  ultimately show ?thesis by simp
qed

lemma ordered_subset: "set (order_by_created_at (filter P tbl)) \<subseteq> set tbl"
  by auto

text \<open>
  The deduction loop of the batch handler run alone with no store call failing. Let the
  rows its find query selects, in ascending \<^verbatim>\<open>created_at\<close> order, be
  \<open>emptied @ boundary # untouched\<close>, where the purchases of \<open>emptied\<close> hold fewer than \<open>N\<close>
  credits together and \<open>boundary\<close> covers the rest. The loop ends without a response and
  leaves every purchase of \<open>emptied\<close> at 0, \<open>boundary\<close> at its remaining credits minus what
  \<open>emptied\<close> did not cover and every other row as it was; the credits of the table fall by
  exactly \<open>N\<close>.
\<close>

lemma batch_loop_takes_n:
  assumes "distinct (map pid (credit_purchases d))"
    and "order_by_created_at (filter (js_eligible u now) (credit_purchases d))
           = emptied @ boundary # untouched"
    and "sum_remaining emptied < N"
    and "N \<le> sum_remaining emptied + remaining_credits boundary"
  shows "fst (batch_deduct_loop no_faults u now N 0 N d cs) = None
       \<and> credit_purchases (fst (snd (batch_deduct_loop no_faults u now N 0 N d cs))) =
           set_remaining (pid boundary)
             (remaining_credits boundary - (N - sum_remaining emptied))
             (fold (\<lambda>e. set_remaining (pid e) 0) emptied (credit_purchases d))
       \<and> sum_remaining (credit_purchases d)
           - sum_remaining (credit_purchases
               (fst (snd (batch_deduct_loop no_faults u now N 0 N d cs)))) = N"
proof -
  have nf: "no_faults = (\<lambda>_. False)" by (auto simp: no_faults_def)
  note r = batch_loop_fifo[OF assms, of N 0 cs, folded nf]
  have dr: "distinct (map pid (emptied @ boundary # untouched))"
    using distinct_pid_ordered[OF assms(1), of "js_eligible u now"] assms(2) by simp
  have sub: "set (emptied @ boundary # untouched) \<subseteq> set (credit_purchases d)"
    using ordered_subset[of "js_eligible u now" "credit_purchases d"] assms(2) by simp
  show ?thesis
    using r by (simp add: sum_closed_form[OF assms(1) dr sub])
qed

section \<open>C2: a consume of N credits\<close>

text \<open>
  Claim C2 says that a consume of N credits takes exactly N credits from the owner's
  eligible purchases, oldest first: with \<open>P1\<close> (older, one credit left) and \<open>P2\<close> (newer,
  ten), a consume of 3 leaves \<open>P1\<close> at 0 and \<open>P2\<close> at 8. \<^verbatim>\<open>use_credits\<close>, called for 3
  credits on that table (the balance is 11), ends with the error 42702 at the query of its
  loop and takes nothing: both purchases are as they were. The deduction loop of the batch
  handler, run for three images, does leave \<open>P1\<close> at 0 and \<open>P2\<close> at 8. Its query, however,
  has no filter on \<^verbatim>\<open>payment_status\<close>: when the owner holds \<open>P2\<close> and an older purchase
  that was never paid, which \<^verbatim>\<open>get_available_credits\<close> does not count, the three credits
  are taken from the unpaid purchase.
\<close>

theorem use_credits_takes_nothing:
  "get_available_credits [P2, P1] 50 7 = Inr 11
   \<and> use_credits [P2, P1] 50 7 3 False = (Inl Ambiguous_column, [P2, P1])
   \<and> credit_purchases (tables (analyze_batch no_faults 7 False 3 Compute_ok 40 50
        (empty_db\<lparr>credit_purchases := [P2, P1]\<rparr>)))
     = [P2\<lparr>remaining_credits := 8\<rparr>, P1\<lparr>remaining_credits := 0\<rparr>]
   \<and> get_available_credits [P2, pending_purchase] 50 7 = Inr 10
   \<and> credit_purchases (tables (analyze_batch no_faults 7 False 3 Compute_ok 40 50
        (empty_db\<lparr>credit_purchases := [P2, pending_purchase]\<rparr>)))
     = [P2, pending_purchase\<lparr>remaining_credits := 197\<rparr>]"
  by code_simp

section \<open>The order of calls in a request\<close>

lemma batch_loop_calls:
  "\<exists>more. snd (snd (batch_deduct_loop faults u now n i c d cs)) = cs @ more"
proof (induction faults u now n i c d cs rule: batch_deduct_loop.induct)
  case (1 faults u now n i creditsToDeduct d cs)
  show ?case
  proof (cases "creditsToDeduct > 0")
    case False
    then show ?thesis by (subst batch_deduct_loop.simps) simp
  next
    case pos: True
    show ?thesis
    proof (cases "find_oldest (faults (Find i)) u now (credit_purchases d)")
      case None
      with pos show ?thesis by (subst batch_deduct_loop.simps) simp
    next
      case (Some cp)
      show ?thesis
      proof (cases "faults (Update i)")
        case True
        with pos Some show ?thesis by (subst batch_deduct_loop.simps) (simp add: Let_def)
      next
        case False
        from 1[OF pos Some refl False refl] obtain more where
          "snd (snd (batch_deduct_loop faults u now n (Suc i)
              (creditsToDeduct - min creditsToDeduct (remaining_credits cp))
              (d\<lparr>credit_purchases :=
                   set_remaining (pid cp)
                     (remaining_credits cp - min creditsToDeduct (remaining_credits cp))
                     (credit_purchases d),
                 api_usage :=
                   insert_usage_rows faults (credit_usage_row u cp)
                     (result_indexes n (creditsToDeduct - min creditsToDeduct (remaining_credits cp))
                        (min creditsToDeduct (remaining_credits cp))) (api_usage d)\<rparr>)
              (cs @ [Store (Find i), Store (Update i)]
                 @ map (\<lambda>j. Store (Insert_usage j))
                     (result_indexes n (creditsToDeduct - min creditsToDeduct (remaining_credits cp))
                        (min creditsToDeduct (remaining_credits cp)))))) =
           (cs @ [Store (Find i), Store (Update i)]
                 @ map (\<lambda>j. Store (Insert_usage j))
                     (result_indexes n (creditsToDeduct - min creditsToDeduct (remaining_credits cp))
                        (min creditsToDeduct (remaining_credits cp)))) @ more"
          by blast
        with pos Some False show ?thesis
          by (subst batch_deduct_loop.simps) (simp add: Let_def)
      qed
    qed
  qed
qed

lemma optimistic_loop_calls:
  "\<exists>more. snd (snd (optimistic_deduct_loop faults u now r d cs)) = cs @ more"
proof (induction r arbitrary: d cs)
  case 0
  then show ?case by simp
next
  case (Suc r)
  show ?case
  proof (cases "find_oldest (faults (Find (3 - Suc r))) u now (credit_purchases d)")
    case None
    then show ?thesis by (simp add: Let_def)
  next
    case (Some cp)
    have IH: "\<exists>more. snd (snd (optimistic_deduct_loop faults u now r d' (cs @ ys))) = cs @ more"
      for d' ys
      using Suc.IH[of d' "cs @ ys"] by auto
    show ?thesis
      using IH Some by (auto simp: Let_def)
  qed
qed

lemma takeWhile_compute:
  "Compute \<notin> set cs1 \<Longrightarrow> takeWhile (\<lambda>e. e \<noteq> Compute) (cs1 @ Compute # rest) = cs1"
  by (induction cs1) auto


lemma no_deduction_before_compute:
  "list_all (\<lambda>e. \<not> deduction_call e)
     (takeWhile (\<lambda>e. e \<noteq> Compute) ((if own then [] else [Store First_check]) @ Compute # rest))"
  by (simp add: deduction_call_def)

lemma after_compute_ok [simp]: "deducts_only_after_compute Compute_ok (cs1 @ Compute # rest)
   = list_all (\<lambda>e. \<not> deduction_call e) (takeWhile (\<lambda>e. e \<noteq> Compute) (cs1 @ Compute # rest))"
  by (simp add: deducts_only_after_compute_def)

lemma analyze_order: "deducts_only_after_compute completion
        (calls (analyze faults u own completion now1 now2 now3 d))"
proof (cases completion)
  case (Compute_throws st)
  then show ?thesis
    by (simp add: analyze_def Let_def deducts_only_after_compute_def deduction_call_def)
next
  case Compute_ok
  obtain more where m: "snd (snd (optimistic_deduct_loop faults u now2 3 d
         ((if own then [] else [Store First_check]) @ [Compute, Store Second_check]))) =
      ((if own then [] else [Store First_check]) @ [Compute, Store Second_check]) @ more"
    using optimistic_loop_calls by blast
  show ?thesis
    using Compute_ok m no_deduction_before_compute[of own]
    by (auto simp: analyze_def Let_def deducts_only_after_compute_def deduction_call_def
         split: prod.splits sum.splits)
qed


lemma analyze_rpc_order: "deducts_only_after_compute completion
        (calls (analyze_rpc faults u own completion now1 now2 now3 d))"
  by (cases completion)
     (auto simp: analyze_rpc_def Let_def deducts_only_after_compute_def deduction_call_def
         split: prod.splits sum.splits)

lemma analyze_batch_order: "deducts_only_after_compute completion
        (calls (analyze_batch faults u own n completion now1 now2 d))"
proof (cases completion)
  case (Compute_throws st)
  then show ?thesis
    by (simp add: analyze_batch_def Let_def deducts_only_after_compute_def deduction_call_def)
next
  case Compute_ok
  obtain more where m: "snd (snd (batch_deduct_loop faults u now2 (int n) 0 (int n) d
         ((if own then [] else [Store First_check]) @ [Compute]))) =
      ((if own then [] else [Store First_check]) @ [Compute]) @ more"
    using batch_loop_calls by blast
  show ?thesis
    using Compute_ok m
    by (auto simp: analyze_batch_def Let_def deducts_only_after_compute_def deduction_call_def
         split: prod.splits option.splits)
qed

section \<open>C5: credits are deducted only after the OpenAI call returned\<close>

text \<open>
  Claim C5. In each of the three analyze handlers, when the OpenAI call throws (an error
  response, the timeout, a malformed completion) the request ends with every table as it
  was, so no purchase's \<^verbatim>\<open>remaining_credits\<close> changes. For every outcome of the call, the
  record of store calls shows no deduction call (find, update, \<^verbatim>\<open>use_credits\<close>) before
  the OpenAI call, and none at all unless the call returned.
\<close>

theorem compute_failure_leaves_ledger:
  "tables (analyze faults u own (Compute_throws st) now1 now2 now3 d) = d
   \<and> tables (analyze_rpc faults u own (Compute_throws st) now1 now2 now3 d) = d
   \<and> tables (analyze_batch faults u own n (Compute_throws st) now1 now2 d) = d
   \<and> deducts_only_after_compute completion
        (calls (analyze faults u own completion now1 now2 now3 d))
   \<and> deducts_only_after_compute completion
        (calls (analyze_rpc faults u own completion now1 now2 now3 d))
   \<and> deducts_only_after_compute completion
        (calls (analyze_batch faults u own n completion now1 now2 d))"
  by (simp add: analyze_order analyze_rpc_order analyze_batch_order)
     (simp add: analyze_def analyze_rpc_def analyze_batch_def Let_def)

theorem compute_failure_leaves_ledger_witness:
  "list_ex deduction_call
     (calls (analyze no_faults 7 False Compute_ok 40 50 60
        (empty_db\<lparr>credit_purchases := [P2, P1]\<rparr>)))
   \<and> deducts_only_after_compute Compute_ok
     (calls (analyze no_faults 7 False Compute_ok 40 50 60
        (empty_db\<lparr>credit_purchases := [P2, P1]\<rparr>)))
   \<and> tables (analyze_batch no_faults 7 False 2 (Compute_throws (Some 429)) 40 50
        (empty_db\<lparr>credit_purchases := [P2, P1]\<rparr>))
     = empty_db\<lparr>credit_purchases := [P2, P1]\<rparr>"
proof -
  have "list_ex deduction_call
     (calls (analyze no_faults 7 False Compute_ok 40 50 60
        (empty_db\<lparr>credit_purchases := [P2, P1]\<rparr>)))"
    by code_simp
  then show ?thesis
    using compute_failure_leaves_ledger[of no_faults 7 False "Some 429" 40 50 60
        "empty_db\<lparr>credit_purchases := [P2, P1]\<rparr>" 2 Compute_ok]
    by simp
qed

section \<open>C10: a request with the caller's own API key leaves the ledger alone\<close>

text \<open>
  Claim C10. When the request carries the caller's own API key, each of the three analyze
  handlers leaves \<^verbatim>\<open>credit_purchases\<close> exactly as it was, whatever the OpenAI call and the
  store do; it makes neither of the credit checks and no deduction call, and it never
  answers 402.
\<close>

theorem own_key_leaves_ledger:
  "credit_purchases (tables (analyze faults u True completion now1 now2 now3 d))
     = credit_purchases d
   \<and> credit_purchases (tables (analyze_rpc faults u True completion now1 now2 now3 d))
     = credit_purchases d
   \<and> credit_purchases (tables (analyze_batch faults u True n completion now1 now2 d))
     = credit_purchases d
   \<and> list_all (\<lambda>e. \<not> credit_check e \<and> \<not> deduction_call e)
        (calls (analyze faults u True completion now1 now2 now3 d))
   \<and> list_all (\<lambda>e. \<not> credit_check e \<and> \<not> deduction_call e)
        (calls (analyze_rpc faults u True completion now1 now2 now3 d))
   \<and> list_all (\<lambda>e. \<not> credit_check e \<and> \<not> deduction_call e)
        (calls (analyze_batch faults u True n completion now1 now2 d))
   \<and> status (resp (analyze faults u True completion now1 now2 now3 d)) \<noteq> 402
   \<and> status (resp (analyze_rpc faults u True completion now1 now2 now3 d)) \<noteq> 402
   \<and> status (resp (analyze_batch faults u True n completion now1 now2 d)) \<noteq> 402"
  by (cases completion)
     (simp_all add: analyze_def analyze_rpc_def analyze_batch_def Let_def credit_check_def
        deduction_call_def catch_response_def list_all_iff)

section \<open>C4: the balance endpoint counts purchases that are not paid\<close>

text \<open>
  Claim C4 says that a pending purchase contributes nothing to the available balance.
  \<^verbatim>\<open>handleGetCredits\<close> does not filter on \<^verbatim>\<open>payment_status\<close>: for an owner whose only
  purchase is pending with 200 credits left it answers \<^verbatim>\<open>available_credits: 200\<close>, where
  the SQL function \<^verbatim>\<open>get_available_credits\<close> returns 0 on the same table.
\<close>

theorem get_credits_counts_pending:
  "credits_field (resp (handleGetCredits no_faults 7 50
       (empty_db\<lparr>credit_purchases := [pending_purchase]\<rparr>))) = Some 200
   \<and> get_available_credits [pending_purchase] 50 7 = Inr 0"
  by (simp add: handleGetCredits_def no_faults_def empty_db_def pending_purchase_def
        js_active_def expires_gt_def get_available_credits_def sql_eligible_def int4_max_def)

section \<open>C7: a store error during the credit check is answered with 402\<close>

text \<open>
  Claim C7 says that a store failure is answered with a 5xx and never as insufficient
  credits. With 11 credits available, a store error on the check after the OpenAI call is
  answered 402 "Insufficient credits. Please add more credits to continue."; a store error
  on the check before the call is answered 402 "Insufficient credits"; a store error on
  the find query of the batch loop is answered 402.
\<close>

theorem store_error_reported_as_insufficient:
  "balance 7 50 [P2, P1] = 11
   \<and> resp (analyze_rpc (\<lambda>s. s = Second_check) 7 False Compute_ok 40 50 60
        (empty_db\<lparr>credit_purchases := [P2, P1]\<rparr>))
     = \<lparr>status = 402,
        error_text = Some ''Insufficient credits. Please add more credits to continue.'',
        credits_field = Some 0\<rparr>
   \<and> resp (analyze (\<lambda>s. s = First_check) 7 False Compute_ok 40 50 60
        (empty_db\<lparr>credit_purchases := [P2, P1]\<rparr>))
     = \<lparr>status = 402, error_text = Some ''Insufficient credits'', credits_field = Some 0\<rparr>
   \<and> status (resp (analyze_batch (\<lambda>s. s = Find 0) 7 False 1 Compute_ok 40 50
        (empty_db\<lparr>credit_purchases := [P2, P1]\<rparr>))) = 402"
  by code_simp

section \<open>C8: the usage row of the optimistic-lock handler names no purchase\<close>

text \<open>
  Claim C8 says that the usage row of a credit-funded request references the purchase the
  credit came from. The handler with the optimistic-lock loop takes the credit from \<open>P1\<close>
  (subscription 3) and appends a usage row whose purchase and subscription are both null
  although no API key was supplied. The batch handler, run for one image on the same
  table, takes the same credit and appends the row with purchase 1 and subscription 3.
\<close>

theorem usage_row_without_purchase:
  "credit_purchases (tables (analyze no_faults 7 False Compute_ok 40 50 60
       (empty_db\<lparr>credit_purchases := [P2, P1]\<rparr>)))
     = [P2, P1\<lparr>remaining_credits := 0\<rparr>]
   \<and> api_usage (tables (analyze no_faults 7 False Compute_ok 40 50 60
       (empty_db\<lparr>credit_purchases := [P2, P1]\<rparr>)))
     = [\<lparr>usage_user_id = 7, usage_purchase_id = None, usage_subscription_id = None,
         credits_used = 1, api_key_used = False\<rparr>]
   \<and> credit_purchases (tables (analyze_batch no_faults 7 False 1 Compute_ok 40 50
       (empty_db\<lparr>credit_purchases := [P2, P1]\<rparr>)))
     = [P2, P1\<lparr>remaining_credits := 0\<rparr>]
   \<and> api_usage (tables (analyze_batch no_faults 7 False 1 Compute_ok 40 50
       (empty_db\<lparr>credit_purchases := [P2, P1]\<rparr>)))
     = [\<lparr>usage_user_id = 7, usage_purchase_id = Some 1, usage_subscription_id = Some 3,
         credits_used = 1, api_key_used = False\<rparr>]"
  by code_simp

section \<open>Rows that shrink\<close>

subsection \<open>The relation\<close>

lemma row_shrinks_refl [simp]: "row_shrinks p p"
  by (simp add: row_shrinks_def)

lemma row_shrinks_trans: "row_shrinks p q \<Longrightarrow> row_shrinks q r \<Longrightarrow> row_shrinks p r"
proof -
  assume a: "row_shrinks p q" and b: "row_shrinks q r"
  from a have q: "q = p\<lparr>remaining_credits := remaining_credits q\<rparr>"
    by (simp add: row_shrinks_def)
  from b have r: "r = q\<lparr>remaining_credits := remaining_credits r\<rparr>"
    by (simp add: row_shrinks_def)
  have cq: "credits q = credits p" by (subst q) simp
  have cr: "credits r = credits q" by (subst r) simp
  have "r = p\<lparr>remaining_credits := remaining_credits r\<rparr>"
    by (subst r, subst q) simp
  moreover have "remaining_credits r \<le> remaining_credits p"
    using a b by (simp add: row_shrinks_def)
  moreover have "0 \<le> remaining_credits p \<longrightarrow> 0 \<le> remaining_credits r"
    using a b by (simp add: row_shrinks_def)
  moreover have "remaining_credits p \<le> credits p \<longrightarrow> remaining_credits r \<le> credits r"
    using a b cq cr by (simp add: row_shrinks_def)
  ultimately show ?thesis unfolding row_shrinks_def by blast
qed

lemma row_shrinks_update:
  "v \<le> remaining_credits p \<Longrightarrow> 0 \<le> v \<Longrightarrow> row_shrinks p (p\<lparr>remaining_credits := v\<rparr>)"
  by (simp add: row_shrinks_def)

lemma shrinks_refl [simp]: "list_all2 row_shrinks tbl tbl"
  by (simp add: list_all2_same)

lemma shrinks_trans:
  "list_all2 row_shrinks a b \<Longrightarrow> list_all2 row_shrinks b c \<Longrightarrow> list_all2 row_shrinks a c"
  by (rule list_all2_trans[OF row_shrinks_trans])

lemma shrinks_map:
  "(\<And>p. p \<in> set tbl \<Longrightarrow> row_shrinks p (f p)) \<Longrightarrow> list_all2 row_shrinks tbl (map f tbl)"
  by (simp add: list_all2_map2 list_all2_same)

lemma shrinks_set_remaining:
  assumes "distinct (map pid tbl)" and "p \<in> set tbl"
    and "0 \<le> v" and "v \<le> remaining_credits p"
  shows "list_all2 row_shrinks tbl (set_remaining (pid p) v tbl)"
  unfolding set_remaining_def
proof (rule shrinks_map)
  fix q assume q: "q \<in> set tbl"
  show "row_shrinks q (if pid q = pid p then q\<lparr>remaining_credits := v\<rparr> else q)"
  proof (cases "pid q = pid p")
    case True
    then have "q = p" using same_pid_same_row[OF assms(1) q assms(2)] by simp
    with assms True show ?thesis by (simp add: row_shrinks_update)
  next
    case False
    then show ?thesis by simp
  qed
qed

lemma shrinks_set_remaining_if:
  "0 < x \<Longrightarrow> list_all2 row_shrinks tbl (set_remaining_if i x (x - 1) tbl)"
  unfolding set_remaining_if_def
  by (rule shrinks_map) (auto simp: row_shrinks_update)

lemma shrinks_ledger_step: "list_all2 row_shrinks tbl tbl' \<Longrightarrow> ledger_step tbl tbl'"
  by (frule list_all2_lengthD) (simp add: ledger_step_def)

lemma insert_ledger_step:
  "remaining_credits row = credits row \<Longrightarrow> ledger_step tbl (insert_purchase fault row tbl)"
  by (simp add: ledger_step_def insert_purchase_def)

lemma ledger_step_refl [simp]: "ledger_step tbl tbl"
  by (simp add: shrinks_ledger_step)

subsection \<open>The loops\<close>

lemma find_oldest_Some:
  "find_oldest fault u now tbl = Some cp \<Longrightarrow> cp \<in> set tbl \<and> js_eligible u now cp"
proof -
  assume a: "find_oldest fault u now tbl = Some cp"
  let ?rows = "order_by_created_at (filter (js_eligible u now) tbl)"
  from a have "limit1_single ?rows = Some cp"
    by (simp add: find_oldest_def split: if_splits)
  then have "cp \<in> set ?rows" by (cases ?rows) auto
  then show ?thesis by simp
qed

lemma optimistic_loop_shrinks:
  "list_all2 row_shrinks (credit_purchases d)
     (credit_purchases (fst (snd (optimistic_deduct_loop faults u now r d cs))))"
proof (induction r arbitrary: d cs)
  case 0
  then show ?case by simp
next
  case (Suc r)
  show ?case
  proof (cases "find_oldest (faults (Find (3 - Suc r))) u now (credit_purchases d)")
    case None
    then show ?thesis by (simp add: Let_def)
  next
    case (Some cp)
    then have pos: "0 < remaining_credits cp"
      using find_oldest_Some[of _ u now "credit_purchases d" cp] by (simp add: js_eligible_def)
    let ?d = "d\<lparr>credit_purchases :=
                 set_remaining_if (pid cp) (remaining_credits cp) (remaining_credits cp - 1)
                   (credit_purchases d)\<rparr>"
    have step: "list_all2 row_shrinks (credit_purchases d) (credit_purchases ?d)"
      using pos by (simp add: shrinks_set_remaining_if)
    have IH: "list_all2 row_shrinks (credit_purchases d)
        (credit_purchases (fst (snd (optimistic_deduct_loop faults u now r d' cs'))))"
      if "d' = d \<or> d' = ?d" for d' cs'
      using that step Suc.IH[of d' cs'] by (auto intro: shrinks_trans)
    show ?thesis
      using Some step IH by (auto simp: Let_def)
  qed
qed

lemma batch_loop_shrinks:
  "distinct (map pid (credit_purchases d)) \<Longrightarrow>
   list_all2 row_shrinks (credit_purchases d)
     (credit_purchases (fst (snd (batch_deduct_loop faults u now n i c d cs))))"
proof (induction faults u now n i c d cs rule: batch_deduct_loop.induct)
  case (1 faults u now n i creditsToDeduct d cs)
  show ?case
  proof (cases "creditsToDeduct > 0")
    case False
    then show ?thesis by (subst batch_deduct_loop.simps) simp
  next
    case pos: True
    show ?thesis
    proof (cases "find_oldest (faults (Find i)) u now (credit_purchases d)")
      case None
      with pos show ?thesis by (subst batch_deduct_loop.simps) simp
    next
      case (Some cp)
      then have cp: "cp \<in> set (credit_purchases d)" "0 < remaining_credits cp"
        using find_oldest_Some[of _ u now "credit_purchases d" cp] by (simp_all add: js_eligible_def)
      show ?thesis
      proof (cases "faults (Update i)")
        case True
        with pos Some show ?thesis by (subst batch_deduct_loop.simps) (simp add: Let_def)
      next
        case False
        let ?k = "min creditsToDeduct (remaining_credits cp)"
        let ?d = "d\<lparr>credit_purchases :=
                     set_remaining (pid cp) (remaining_credits cp - ?k) (credit_purchases d),
                   api_usage :=
                     insert_usage_rows faults (credit_usage_row u cp)
                       (result_indexes n (creditsToDeduct - ?k) ?k) (api_usage d)\<rparr>"
        have step: "list_all2 row_shrinks (credit_purchases d) (credit_purchases ?d)"
          using "1.prems" cp pos by (simp add: shrinks_set_remaining)
        have "list_all2 row_shrinks (credit_purchases ?d)
           (credit_purchases (fst (snd (batch_deduct_loop faults u now n (Suc i)
               (creditsToDeduct - ?k) ?d
               (cs @ [Store (Find i), Store (Update i)]
                 @ map (\<lambda>j. Store (Insert_usage j))
                     (result_indexes n (creditsToDeduct - ?k) ?k))))))"
          using "1.prems" by (intro "1.IH"[OF pos Some refl False refl]) simp
        with step have "list_all2 row_shrinks (credit_purchases d)
           (credit_purchases (fst (snd (batch_deduct_loop faults u now n (Suc i)
               (creditsToDeduct - ?k) ?d
               (cs @ [Store (Find i), Store (Update i)]
                 @ map (\<lambda>j. Store (Insert_usage j))
                     (result_indexes n (creditsToDeduct - ?k) ?k))))))"
          by (rule shrinks_trans)
        with pos Some False show ?thesis
          by (subst batch_deduct_loop.simps) (simp add: Let_def)
      qed
    qed
  qed
qed


lemma optimistic_loop_shrinksD:
  "optimistic_deduct_loop faults u now r d cs = (x, d', cs') \<Longrightarrow>
   list_all2 row_shrinks (credit_purchases d) (credit_purchases d')"
  using optimistic_loop_shrinks[of d faults u now r cs] by simp

lemma batch_loop_shrinksD:
  "distinct (map pid (credit_purchases d)) \<Longrightarrow>
   batch_deduct_loop faults u now n i c d cs = (x, d', cs') \<Longrightarrow>
   list_all2 row_shrinks (credit_purchases d) (credit_purchases d')"
  using batch_loop_shrinks[of d faults u now n i c cs] by simp

subsection \<open>The handlers and the SQL functions\<close>

lemma analyze_shrinks:
  "list_all2 row_shrinks (credit_purchases d)
     (credit_purchases (tables (analyze faults u own completion now1 now2 now3 d)))"
  by (auto simp: analyze_def Let_def split: compute.splits prod.splits sum.splits if_splits
      dest: optimistic_loop_shrinksD)

lemma use_credits_leaves_table:
  "snd (use_credits tbl now p_user_id p_credits_to_use p_api_key_used) = tbl"
  by (simp add: use_credits_def split: sum.splits)

lemma analyze_rpc_leaves_purchases:
  "credit_purchases (tables (analyze_rpc faults u own completion now1 now2 now3 d))
     = credit_purchases d"
  by (auto simp: analyze_rpc_def Let_def use_credits_def
      split: compute.splits prod.splits sum.splits if_splits)

lemma analyze_batch_shrinks:
  "distinct (map pid (credit_purchases d)) \<Longrightarrow>
   list_all2 row_shrinks (credit_purchases d)
     (credit_purchases (tables (analyze_batch faults u own n completion now1 now2 d)))"
  by (auto simp: analyze_batch_def Let_def
      split: compute.splits prod.splits option.splits if_splits
      dest: batch_loop_shrinksD)

lemma decrement_credit_shrinks:
  assumes "distinct (map pid tbl)" and "0 \<le> amount"
  shows "list_all2 row_shrinks tbl (snd (decrement_credit tbl i amount))"
proof (cases "find (\<lambda>p. pid p = i) tbl")
  case None
  then show ?thesis by (simp add: decrement_credit_def)
next
  case (Some row)
  then have r: "row \<in> set tbl" and i: "i = pid row"
    by (auto simp: find_Some_iff)
  show ?thesis
  proof (cases "remaining_credits row < amount")
    case True
    with Some show ?thesis by (simp add: decrement_credit_def)
  next
    case False
    then have "list_all2 row_shrinks tbl
                 (set_remaining (pid row) (remaining_credits row - amount) tbl)"
      using assms r by (intro shrinks_set_remaining) simp_all
    then have "list_all2 row_shrinks tbl (decrement_remaining i amount tbl)"
      by (simp add: i decrement_is_set[OF assms(1) r])
    with Some show ?thesis by (simp add: decrement_credit_def Let_def)
  qed
qed

lemma checkout_ledger_step:
  "ledger_step (credit_purchases d)
     (credit_purchases (handleCheckoutCompleted faults e now session d))"
  by (auto simp: handleCheckoutCompleted_def Let_def insert_ledger_step
      split: option.splits prod.splits)

lemma invoice_ledger_step:
  "ledger_step (credit_purchases d)
     (credit_purchases (handleInvoicePaymentSucceeded faults now invoice d))"
  by (auto simp: handleInvoicePaymentSucceeded_def insert_ledger_step split: option.splits)

lemma webhook_ledger_step:
  "ledger_step (credit_purchases d) (credit_purchases (stripe_webhook faults e now ev d))"
  by (auto simp: stripe_webhook_def checkout_ledger_step invoice_ledger_step
        handleSubscriptionUpdate_def handleSubscriptionDeleted_def
        handleInvoicePaymentFailed_def Let_def
      split: event_data.splits option.splits)

lemma coupon_ledger_step:
  "ledger_step (credit_purchases d)
     (credit_purchases (tables (redeem_coupon faults e configured matches userId now stamp d)))"
  by (auto simp: redeem_coupon_def Let_def insert_ledger_step split: prod.splits option.splits)

lemma add_credits_ledger_step:
  "ledger_step (credit_purchases d)
     (credit_purchases (tables (handleAddCredits faults userId payment_id test_mode now d)))"
  by (auto simp: handleAddCredits_def Let_def insert_ledger_step)

section \<open>C6: remaining credits that grow\<close>

text \<open>
  Claim C6 says that under every operation of the system \<^verbatim>\<open>remaining_credits\<close> only falls
  and never passes \<^verbatim>\<open>credits\<close>. The deduction loop of the batch handler writes the value
  it computed from its own read, with no condition on the value in the table. Two batch
  requests of owner 7 run against \<open>P2\<close> (ten credits), the first for one image and the
  second for three: both read 10, the second writes 7, then the first writes 9, so the
  row goes from 7 to 9. \<^verbatim>\<open>decrement_credit\<close>, which every authenticated user may call,
  does not test the sign of \<^verbatim>\<open>amount\<close>: called on \<open>P2\<close> with amount -5 it succeeds and
  leaves 15 remaining credits on a purchase that granted 10.
\<close>

theorem remaining_credits_grow:
  "credits P2 = 10 \<and> remaining_credits P2 = 10
   \<and> interleave (batch_step 7 50) [0, 1, 1] ([Batch_find 1, Batch_find 3], [P2])
     = ([Batch_update 1 P2, Batch_find 0], [P2\<lparr>remaining_credits := 7\<rparr>])
   \<and> interleave (batch_step 7 50) [0, 1, 1, 0] ([Batch_find 1, Batch_find 3], [P2])
     = ([Batch_find 0, Batch_find 0], [P2\<lparr>remaining_credits := 9\<rparr>])
   \<and> decrement_credit [P2] 2 (- 5)
     = (\<lparr>decrement_success = True, decrement_remaining_credits = Some 15,
         amount_deducted = Some (- 5)\<rparr>,
        [P2\<lparr>remaining_credits := 15\<rparr>])"
  by code_simp

section \<open>C9: \<^verbatim>\<open>use_credits\<close> against the optimistic-lock loop\<close>

lemma matched_row:
  "distinct (map pid tbl) \<Longrightarrow> l \<in> set tbl \<Longrightarrow>
   filter (\<lambda>p. pid p = pid l \<and> remaining_credits p = remaining_credits l) tbl = [l]"
proof (induction tbl)
  case Nil
  then show ?case by simp
next
  case (Cons q tbl)
  show ?case
  proof (cases "q = l")
    case True
    with Cons.prems have "pid l \<notin> pid ` set tbl" by simp
    then have "\<forall>r\<in>set tbl. pid r \<noteq> pid l" by (metis image_eqI)
    then have "filter (\<lambda>p. pid p = pid l \<and> remaining_credits p = remaining_credits l) tbl = []"
      by (simp add: filter_empty_conv)
    with True show ?thesis by simp
  next
    case False
    with Cons.prems have l: "l \<in> set tbl" by simp
    from Cons.prems have "pid q \<notin> pid ` set tbl" by simp
    with l have "pid q \<noteq> pid l" by (metis image_eqI)
    with Cons l show ?thesis by simp
  qed
qed

lemma set_remaining_if_is_set:
  assumes "distinct (map pid tbl)" and "l \<in> set tbl"
  shows "set_remaining_if (pid l) (remaining_credits l) v tbl = set_remaining (pid l) v tbl"
proof -
  have "q = l" if "q \<in> set tbl" "pid q = pid l" for q
    using same_pid_same_row[OF assms(1) that(1) assms(2) that(2)] .
  then show ?thesis
    unfolding set_remaining_if_def set_remaining_def by (intro map_cong) auto
qed

lemma optimistic_loop_first_try:
  assumes dist: "distinct (map pid (credit_purchases d))"
    and rows: "order_by_created_at (filter (js_eligible u now) (credit_purchases d)) = l # us"
  shows "optimistic_deduct_loop no_faults u now 3 d cs =
           (Inr (Some (pid l), subscription_id l),
            d\<lparr>credit_purchases :=
                set_remaining (pid l) (remaining_credits l - 1) (credit_purchases d)\<rparr>,
            cs @ [Store (Find 0), Store (Update 0)])"
proof -
  have found: "find_oldest False u now (credit_purchases d) = Some l"
    using rows by (simp add: find_oldest_head)
  then have l: "l \<in> set (credit_purchases d)"
    using find_oldest_Some by blast
  show ?thesis
    by (simp add: numeral_3_eq_3 no_faults_def found Let_def matched_row[OF dist l]
          set_remaining_if_is_set[OF dist l])
qed

lemma optimistic_loop_no_rows:
  assumes "order_by_created_at (filter (js_eligible u now) (credit_purchases d)) = []"
  shows "optimistic_deduct_loop no_faults u now 3 d cs =
           (Inl \<lparr>status = 402, error_text = Some ''No valid credits found'',
                  credits_field = None\<rparr>, d, cs @ [Store (Find 0)])"
  using assms by (simp add: numeral_3_eq_3 no_faults_def find_oldest_def Let_def)

text \<open>
  Claim C9 says that, from the same table and for the same owner and number of units,
  \<^verbatim>\<open>use_credits\<close> and the optimistic-lock loop take from the same purchases, leave the
  same remaining credits and agree on success. For one unit on the table of \<open>P1\<close> and
  \<open>P2\<close>, \<^verbatim>\<open>use_credits\<close> ends with the error 42702 and leaves both purchases as they
  were, so the handler that calls it answers 500 and writes nothing, while the loop takes
  the credit of \<open>P1\<close> and its handler answers 200. For one unit and an owner whose only
  purchase is unpaid, \<^verbatim>\<open>use_credits\<close> reports insufficient credits and changes nothing,
  while the loop, whose query has no filter on \<^verbatim>\<open>payment_status\<close>, takes a credit from
  the unpaid purchase.
\<close>

theorem use_credits_raises_where_loop_deducts:
  "use_credits [P2, P1] 50 7 1 False = (Inl Ambiguous_column, [P2, P1])
   \<and> optimistic_deduct_loop no_faults 7 50 3 (empty_db\<lparr>credit_purchases := [P2, P1]\<rparr>) []
     = (Inr (Some 1, Some 3),
        empty_db\<lparr>credit_purchases := [P2, P1\<lparr>remaining_credits := 0\<rparr>]\<rparr>,
        [Store (Find 0), Store (Update 0)])
   \<and> status (resp (analyze_rpc no_faults 7 False Compute_ok 40 50 60
        (empty_db\<lparr>credit_purchases := [P2, P1]\<rparr>))) = 500
   \<and> tables (analyze_rpc no_faults 7 False Compute_ok 40 50 60
        (empty_db\<lparr>credit_purchases := [P2, P1]\<rparr>))
     = empty_db\<lparr>credit_purchases := [P2, P1]\<rparr>
   \<and> status (resp (analyze no_faults 7 False Compute_ok 40 50 60
        (empty_db\<lparr>credit_purchases := [P2, P1]\<rparr>))) = 200
   \<and> use_credits [pending_purchase] 50 7 1 False
     = (Inr \<lparr>success = False, message = ''Insufficient credits'',
             purchase_id = None, used_subscription_id = None\<rparr>, [pending_purchase])
   \<and> fst (optimistic_deduct_loop no_faults 7 50 3
        (empty_db\<lparr>credit_purchases := [pending_purchase]\<rparr>) []) = Inr (Some 5, None)
   \<and> credit_purchases (fst (snd (optimistic_deduct_loop no_faults 7 50 3
        (empty_db\<lparr>credit_purchases := [pending_purchase]\<rparr>) [])))
     = [pending_purchase\<lparr>remaining_credits := 199\<rparr>]"
  by code_simp

section \<open>C3: delivering a webhook event twice\<close>

text \<open>
  Claim C3 says that a second delivery of an event with the same event id is a no-op, the
  event log being checked before any state is changed, and that a replayed cycle-renewal
  invoice grants no second purchase. No handler reads \<^verbatim>\<open>subscription_history\<close>, and none
  is given the event id. The store holds one purchase; the renewal event \<^verbatim>\<open>evt_3\<close>
  delivered once makes it two, delivered a second time three, and the second delivery adds
  no row to the event log. The top-up event \<^verbatim>\<open>evt_2\<close> delivered twice grants two
  purchases as well. When the store refuses the update of \<^verbatim>\<open>subscriptions\<close> on both
  deliveries of the renewal, as it does on the schema of the repository, there are three
  purchases all the same.
\<close>

theorem renewal_replay_grants_again:
  "event_id renewal_event = ''evt_3''
   \<and> length (credit_purchases subscribed_db) = 1
   \<and> length (credit_purchases (stripe_webhook no_faults no_env 30 renewal_event subscribed_db)) = 2
   \<and> length (credit_purchases (stripe_webhook no_faults no_env 31 renewal_event
        (stripe_webhook no_faults no_env 30 renewal_event subscribed_db))) = 3
   \<and> subscription_history (stripe_webhook no_faults no_env 31 renewal_event
        (stripe_webhook no_faults no_env 30 renewal_event subscribed_db))
      = subscription_history (stripe_webhook no_faults no_env 30 renewal_event subscribed_db)
   \<and> stripe_webhook no_faults no_env 31 renewal_event
        (stripe_webhook no_faults no_env 30 renewal_event subscribed_db)
      \<noteq> stripe_webhook no_faults no_env 30 renewal_event subscribed_db
   \<and> length (credit_purchases (stripe_webhook no_faults no_env 31 topup_event
        (stripe_webhook no_faults no_env 30 topup_event subscribed_db))) = 3
   \<and> length (credit_purchases (stripe_webhook (\<lambda>s. s = Update_subscription) no_env 31
        renewal_event
        (stripe_webhook (\<lambda>s. s = Update_subscription) no_env 30 renewal_event
           subscribed_db))) = 3"
  by code_simp

section \<open>C1: concurrent consumes\<close>

subsection \<open>The balance under an update\<close>



subsection \<open>The conditional update\<close>






subsection \<open>One store call\<close>








text \<open>
  The deduction loop of the batch handler sends its update without the condition on the
  value read. Two runs for one image each, against the single credit of \<open>P1\<close>, both read
  1 and both write 0: two successes for one credit.
\<close>

lemma batch_loop_lost_update:
  "balance 7 50 [P1] = 1
   \<and> interleave (batch_step 7 50) [0, 1, 0, 1, 0, 1] ([Batch_find 1, Batch_find 1], [P1])
     = ([Batch_deducted, Batch_deducted], [P1\<lparr>remaining_credits := 0\<rparr>])"
  by code_simp



end
